theory Spec2Isabelle
  imports Main "HOL-Library.Multiset"
begin

section \<open>Values exchanged by the router and the client\<close>

text \<open>JSON values: request bodies and parsed response bodies.\<close>

datatype json =
    JNull
  | JBool bool
  | JNum int
  | JStr string
  | JArr "json list"
  | JObj "(string \<times> json) list"

text \<open>
  The Todo model of the Prisma schema (\<^verbatim>\<open>src/todo.md\<close>, step 2):
  \<^verbatim>\<open>id String @id @default(auto())\<close>, \<^verbatim>\<open>content String\<close>,
  \<^verbatim>\<open>date DateTime @default(now())\<close>. A date is a number of milliseconds.
\<close>

record todo =
  todo_id :: string
  content :: string
  date :: nat

text \<open>What a call of the Prisma client can throw.\<close>

datatype prisma_error =
    ValidationError
  | MalformedObjectID
  | RecordNotFound
  | UniqueConstraint
  | Unreachable

datatype todo_filter = NoFilter | IdEquals string

datatype sort_order = Asc | Desc

text \<open>
  The Prisma client as the router uses it: \<^verbatim>\<open>prisma.todo.create\<close>,
  \<^verbatim>\<open>findMany\<close>, \<^verbatim>\<open>update\<close> and \<^verbatim>\<open>delete\<close>. Each call runs on the
  database \<open>'db\<close> and either throws (\<open>Inl\<close>) or returns (\<open>Inr\<close>).
\<close>

record 'db prisma_client =
  todo_create :: "json \<Rightarrow> 'db \<Rightarrow> (prisma_error + todo) \<times> 'db"
  todo_findMany :: "todo_filter \<Rightarrow> sort_order \<Rightarrow> 'db \<Rightarrow> (prisma_error + todo list) \<times> 'db"
  todo_update :: "string \<Rightarrow> json \<Rightarrow> 'db \<Rightarrow> (prisma_error + todo) \<times> 'db"
  todo_delete :: "string \<Rightarrow> 'db \<Rightarrow> (prisma_error + todo) \<times> 'db"

section \<open>Express request and response\<close>

record request =
  params_id :: string
  body :: json

datatype payload =
    SentTodo todo
  | SentTodos "todo list"
  | SentError prisma_error

record response =
  statusCode :: nat
  sent :: "payload option"

text \<open>A response object as Express hands it to a handler: status 200, nothing sent.\<close>

definition new_response :: response where
  "new_response = \<lparr>statusCode = 200, sent = None\<rparr>"

text \<open>The state a handler runs in: the database, the server console, the response object.\<close>

record 'db server =
  db :: 'db
  console :: "json list"
  res :: response

text \<open>A statement of a handler: it changes the state and returns or throws.\<close>

type_synonym ('db, 'a) stmt = "'db server \<Rightarrow> (prisma_error + 'a) \<times> 'db server"

definition seq :: "('db, 'a) stmt \<Rightarrow> ('a \<Rightarrow> ('db, 'b) stmt) \<Rightarrow> ('db, 'b) stmt" where
  "seq m f s = (case m s of (Inl err, s') \<Rightarrow> (Inl err, s') | (Inr v, s') \<Rightarrow> f v s')"

definition try_catch :: "('db, 'a) stmt \<Rightarrow> (prisma_error \<Rightarrow> ('db, 'a) stmt) \<Rightarrow> ('db, 'a) stmt" where
  "try_catch blk handler s =
     (case blk s of (Inl err, s') \<Rightarrow> handler err s' | (Inr v, s') \<Rightarrow> (Inr v, s'))"

definition console_log :: "json \<Rightarrow> ('db, unit) stmt" where
  "console_log v s = (Inr (), s\<lparr>console := console s @ [v]\<rparr>)"

definition await :: "('db \<Rightarrow> (prisma_error + 'a) \<times> 'db) \<Rightarrow> ('db, 'a) stmt" where
  "await call s = (case call (db s) of (r, d) \<Rightarrow> (r, s\<lparr>db := d\<rparr>))"

definition res_status :: "nat \<Rightarrow> ('db, unit) stmt" where
  "res_status code s = (Inr (), s\<lparr>res := (res s)\<lparr>statusCode := code\<rparr>\<rparr>)"

definition res_send :: "payload \<Rightarrow> ('db, unit) stmt" where
  "res_send p s = (Inr (), s\<lparr>res := (res s)\<lparr>sent := Some p\<rparr>\<rparr>)"

section \<open>The API router (\<^verbatim>\<open>src/routes/api.js\<close>, lines 20 to 79)\<close>

text \<open>\<^verbatim>\<open>router.post('/todo', ...)\<close>\<close>

definition post_todo :: "'db prisma_client \<Rightarrow> request \<Rightarrow> ('db, unit) stmt" where
  "post_todo prisma req =
     try_catch
       (seq (console_log (body req)) (\<lambda>_.
        seq (await (todo_create prisma (body req))) (\<lambda>todo.
        res_send (SentTodo todo))))
       (\<lambda>err. seq (res_status 500) (\<lambda>_. res_send (SentError err)))"

text \<open>\<^verbatim>\<open>router.get('/todos', ...)\<close>\<close>

definition get_todos :: "'db prisma_client \<Rightarrow> request \<Rightarrow> ('db, unit) stmt" where
  "get_todos prisma req =
     try_catch
       (seq (await (todo_findMany prisma NoFilter Desc)) (\<lambda>todos.
        res_send (SentTodos todos)))
       (\<lambda>err. seq (res_status 500) (\<lambda>_. res_send (SentError err)))"

text \<open>\<^verbatim>\<open>router.put('/todo/:id', ...)\<close>\<close>

definition put_todo :: "'db prisma_client \<Rightarrow> request \<Rightarrow> ('db, unit) stmt" where
  "put_todo prisma req =
     try_catch
       (seq (await (todo_update prisma (params_id req) (body req))) (\<lambda>todo.
        res_send (SentTodo todo)))
       (\<lambda>err. seq (res_status 500) (\<lambda>_. res_send (SentError err)))"

text \<open>\<^verbatim>\<open>router.delete('/todo/:id', ...)\<close>\<close>

definition delete_todo :: "'db prisma_client \<Rightarrow> request \<Rightarrow> ('db, unit) stmt" where
  "delete_todo prisma req =
     try_catch
       (seq (await (todo_delete prisma (params_id req))) (\<lambda>result.
        res_send (SentTodo result)))
       (\<lambda>err. seq (res_status 500) (\<lambda>_. res_send (SentError err)))"

text \<open>
  Express calls a handler with a new response object; what the client receives is the
  response object as the handler leaves it, unless the handler threw.
\<close>

definition serve ::
  "(request \<Rightarrow> ('db, unit) stmt) \<Rightarrow> request \<Rightarrow> 'db \<Rightarrow> json list
     \<Rightarrow> (prisma_error + response) \<times> 'db \<times> json list" where
  "serve handler req d out =
     (case handler req \<lparr>db = d, console = out, res = new_response\<rparr> of
        (Inl err, s) \<Rightarrow> (Inl err, db s, console s)
      | (Inr _, s) \<Rightarrow> (Inr (res s), db s, console s))"

section \<open>The storage engine behind the Prisma client\<close>

text \<open>
  The Prisma query engine and MongoDB are not part of the repository; the router only
  calls them. The definitions of this section follow the specification (sections 3 and
  4.1) and the schema of \<^verbatim>\<open>src/todo.md\<close>.
\<close>

text \<open>
  Modelled from the spec: the state of the storage engine. The stored records, the
  counter behind \<^verbatim>\<open>@default(auto())\<close>, the clock behind \<^verbatim>\<open>@default(now())\<close>,
  and whether the database can be reached.
\<close>

record database =
  records :: "todo list"
  next_oid :: nat
  clock :: nat
  online :: bool

text \<open>Modelled from the spec: the identifiers in use, in the order of the records.\<close>

definition ids :: "database \<Rightarrow> string list" where
  "ids d = map todo_id (records d)"

text \<open>Modelled from the spec: a hexadecimal digit of a key.\<close>

definition is_hex :: "char \<Rightarrow> bool" where
  "is_hex c = (c \<in> set ''0123456789abcdefABCDEF'')"

text \<open>
  Modelled from the spec: the engine's key format (\<^verbatim>\<open>@db.ObjectId\<close>), 24 hexadecimal
  digits; \<^verbatim>\<open>src/todo.md\<close> records the engine's complaint about the key
  \<^verbatim>\<open>"undefined"\<close>.
\<close>

definition is_object_id :: "string \<Rightarrow> bool" where
  "is_object_id s = (length s = 24 \<and> list_all is_hex s)"

text \<open>Modelled from the spec: the last hexadecimal digit of a number.\<close>

definition hex_digit :: "nat \<Rightarrow> char" where
  "hex_digit n = ''0123456789abcdef'' ! (n mod 16)"

text \<open>Modelled from the spec: the last \<open>k\<close> hexadecimal digits of a number.\<close>

fun hex_digits :: "nat \<Rightarrow> nat \<Rightarrow> string" where
  "hex_digits 0 n = []"
| "hex_digits (Suc k) n = hex_digits k (n div 16) @ [hex_digit n]"

text \<open>Modelled from the spec: the identifier the engine generates from its counter.\<close>

definition auto_oid :: "nat \<Rightarrow> string" where
  "auto_oid n = hex_digits 24 n"

text \<open>Modelled from the spec: a document has no field outside the model's.\<close>

definition known_fields :: "string list \<Rightarrow> (string \<times> json) list \<Rightarrow> bool" where
  "known_fields names fs = list_all (\<lambda>(k, v). k \<in> set names) fs"

text \<open>
  Modelled from the spec: reading a field of a document. An absent field is fine
  (\<open>Some None\<close>); a field of the wrong type makes the document malformed (\<open>None\<close>).
\<close>

definition optional :: "(json \<rightharpoonup> 'a) \<Rightarrow> (string \<times> json) list \<Rightarrow> string \<Rightarrow> 'a option option" where
  "optional conv fs k =
     (case map_of fs k of
        None \<Rightarrow> Some None
      | Some v \<Rightarrow> (case conv v of None \<Rightarrow> None | Some x \<Rightarrow> Some (Some x)))"

text \<open>Modelled from the spec: a value for a \<^verbatim>\<open>String\<close> field.\<close>

fun as_string :: "json \<rightharpoonup> string" where
  "as_string (JStr s) = Some s"
| "as_string _ = None"

text \<open>Modelled from the spec: a value for the \<^verbatim>\<open>@db.ObjectId\<close> field.\<close>

fun as_oid :: "json \<rightharpoonup> string" where
  "as_oid (JStr s) = (if is_object_id s then Some s else None)"
| "as_oid _ = None"

text \<open>
  Modelled from the spec: a date arrives as an ISO-8601 string; \<open>rd\<close> is the engine's
  reader of such strings, a parameter of the model.
\<close>

fun as_date :: "(string \<rightharpoonup> nat) \<Rightarrow> json \<rightharpoonup> nat" where
  "as_date rd (JStr s) = rd s"
| "as_date rd _ = None"

text \<open>
  Modelled from the spec: the data of a create call is a document with a string
  \<^verbatim>\<open>content\<close> and, optionally, an \<^verbatim>\<open>id\<close> and a \<^verbatim>\<open>date\<close>.
\<close>

definition create_input ::
  "(string \<rightharpoonup> nat) \<Rightarrow> json \<Rightarrow> (string option \<times> string \<times> nat option) option" where
  "create_input rd data =
     (case data of
        JObj fs \<Rightarrow>
          if \<not> known_fields [''id'', ''content'', ''date''] fs then None
          else (case (optional as_oid fs ''id'', map_of fs ''content'',
                      optional (as_date rd) fs ''date'') of
                  (Some i, Some (JStr c), Some dt) \<Rightarrow> Some (i, c, dt)
                | _ \<Rightarrow> None)
      | _ \<Rightarrow> None)"

text \<open>
  Modelled from the spec: the data of an update call may overwrite \<^verbatim>\<open>content\<close> and
  \<^verbatim>\<open>date\<close>; the identifier is immutable, so a document naming it is malformed.
\<close>

definition update_input ::
  "(string \<rightharpoonup> nat) \<Rightarrow> json \<Rightarrow> (string option \<times> nat option) option" where
  "update_input rd data =
     (case data of
        JObj fs \<Rightarrow>
          if \<not> known_fields [''content'', ''date''] fs then None
          else (case (optional as_string fs ''content'', optional (as_date rd) fs ''date'') of
                  (Some c, Some dt) \<Rightarrow> Some (c, dt)
                | _ \<Rightarrow> None)
      | _ \<Rightarrow> None)"

text \<open>Modelled from the spec: merge semantics, fields absent from the data are kept.\<close>

definition merge_fields :: "string option \<Rightarrow> nat option \<Rightarrow> todo \<Rightarrow> todo" where
  "merge_fields c dt t =
     t\<lparr>content := (case c of None \<Rightarrow> content t | Some x \<Rightarrow> x),
       date := (case dt of None \<Rightarrow> date t | Some x \<Rightarrow> x)\<rparr>"

text \<open>
  Modelled from the spec: Create. The engine assigns \<^verbatim>\<open>id\<close> and \<^verbatim>\<open>date\<close> when
  they are absent and refuses an identifier that is already stored.
\<close>

definition engine_create ::
  "(string \<rightharpoonup> nat) \<Rightarrow> json \<Rightarrow> database \<Rightarrow> (prisma_error + todo) \<times> database" where
  "engine_create rd data d =
     (case create_input rd data of
        None \<Rightarrow> (Inl ValidationError, d)
      | Some (i, c, dt) \<Rightarrow>
          if \<not> online d then (Inl Unreachable, d)
          else
            let t = \<lparr>todo_id = (case i of None \<Rightarrow> auto_oid (next_oid d) | Some x \<Rightarrow> x),
                     content = c,
                     date = (case dt of None \<Rightarrow> clock d | Some x \<Rightarrow> x)\<rparr>;
                d1 = (case i of None \<Rightarrow> d\<lparr>next_oid := Suc (next_oid d)\<rparr> | Some x \<Rightarrow> d)
            in if todo_id t \<in> set (ids d) then (Inl UniqueConstraint, d1)
               else (Inr t, d1\<lparr>records := records d @ [t]\<rparr>))"

text \<open>Modelled from the spec: which records a filter selects.\<close>

fun selects :: "todo_filter \<Rightarrow> todo \<Rightarrow> bool" where
  "selects NoFilter t = True"
| "selects (IdEquals i) t = (todo_id t = i)"

text \<open>Modelled from the spec: a filter whose key the engine can read.\<close>

fun filter_ok :: "todo_filter \<Rightarrow> bool" where
  "filter_ok NoFilter = True"
| "filter_ok (IdEquals i) = is_object_id i"

text \<open>Modelled from the spec: ordering by \<^verbatim>\<open>date\<close>, ascending or descending.\<close>

fun order_by_date :: "sort_order \<Rightarrow> todo list \<Rightarrow> todo list" where
  "order_by_date Asc ts = sort_key (\<lambda>t. int (date t)) ts"
| "order_by_date Desc ts = sort_key (\<lambda>t. - int (date t)) ts"

text \<open>Modelled from the spec: List, the selected records in the order asked for.\<close>

definition engine_findMany ::
  "todo_filter \<Rightarrow> sort_order \<Rightarrow> database \<Rightarrow> (prisma_error + todo list) \<times> database" where
  "engine_findMany flt ord d =
     (if \<not> filter_ok flt then (Inl MalformedObjectID, d)
      else if \<not> online d then (Inl Unreachable, d)
      else (Inr (order_by_date ord (filter (selects flt) (records d))), d))"

text \<open>
  Modelled from the spec: Update by key. The engine raises when the key is malformed or
  matches no record; otherwise the record is merged with the data and returned.
\<close>

definition engine_update ::
  "(string \<rightharpoonup> nat) \<Rightarrow> string \<Rightarrow> json \<Rightarrow> database \<Rightarrow> (prisma_error + todo) \<times> database" where
  "engine_update rd i data d =
     (case update_input rd data of
        None \<Rightarrow> (Inl ValidationError, d)
      | Some (c, dt) \<Rightarrow>
          if \<not> is_object_id i then (Inl MalformedObjectID, d)
          else if \<not> online d then (Inl Unreachable, d)
          else (case find (\<lambda>t. todo_id t = i) (records d) of
                  None \<Rightarrow> (Inl RecordNotFound, d)
                | Some t \<Rightarrow>
                    (Inr (merge_fields c dt t),
                     d\<lparr>records :=
                         map (\<lambda>r. if todo_id r = i then merge_fields c dt r else r) (records d)\<rparr>)))"

text \<open>
  Modelled from the spec: Delete by key. The engine raises when the key is malformed or
  matches no record; otherwise the record is removed and its last state returned.
\<close>

definition engine_delete ::
  "string \<Rightarrow> database \<Rightarrow> (prisma_error + todo) \<times> database" where
  "engine_delete i d =
     (if \<not> is_object_id i then (Inl MalformedObjectID, d)
      else if \<not> online d then (Inl Unreachable, d)
      else (case find (\<lambda>t. todo_id t = i) (records d) of
              None \<Rightarrow> (Inl RecordNotFound, d)
            | Some t \<Rightarrow> (Inr t, d\<lparr>records := filter (\<lambda>r. todo_id r \<noteq> i) (records d)\<rparr>)))"

text \<open>Modelled from the spec: the Prisma client over this engine.\<close>

definition engine :: "(string \<rightharpoonup> nat) \<Rightarrow> database prisma_client" where
  "engine rd =
     \<lparr>todo_create = engine_create rd,
      todo_findMany = engine_findMany,
      todo_update = engine_update rd,
      todo_delete = engine_delete\<rparr>"

section \<open>Sequences of requests\<close>

text \<open>
  What can happen to the server: one of the four requests arrives, time passes, or the
  connection to the database comes and goes.
\<close>

datatype event =
    Post request
  | Get request
  | Put request
  | Delete request
  | Tick nat
  | Link bool

text \<open>The database after a handler has answered a request.\<close>

definition after :: "(request \<Rightarrow> (database, unit) stmt) \<Rightarrow> request \<Rightarrow> database \<Rightarrow> database" where
  "after handler req d = fst (snd (serve handler req d []))"

text \<open>One event. A clock only moves forward.\<close>

fun step :: "(string \<rightharpoonup> nat) \<Rightarrow> database \<Rightarrow> event \<Rightarrow> database" where
  "step rd d (Post req) = after (post_todo (engine rd)) req d"
| "step rd d (Get req) = after (get_todos (engine rd)) req d"
| "step rd d (Put req) = after (put_todo (engine rd)) req d"
| "step rd d (Delete req) = after (delete_todo (engine rd)) req d"
| "step rd d (Tick n) = d\<lparr>clock := clock d + n\<rparr>"
| "step rd d (Link b) = d\<lparr>online := b\<rparr>"

text \<open>A sequence of events, from the database \<open>d\<close>.\<close>

definition run :: "(string \<rightharpoonup> nat) \<Rightarrow> database \<Rightarrow> event list \<Rightarrow> database" where
  "run rd d evs = foldl (step rd) d evs"

text \<open>Modelled from the spec: the engine before anything is stored.\<close>

definition empty_db :: "nat \<Rightarrow> nat \<Rightarrow> bool \<Rightarrow> database" where
  "empty_db n c b = \<lparr>records = [], next_oid = n, clock = c, online = b\<rparr>"

text \<open>The four endpoints of the router.\<close>

definition handlers :: "'db prisma_client \<Rightarrow> (request \<Rightarrow> ('db, unit) stmt) list" where
  "handlers prisma = [post_todo prisma, get_todos prisma, put_todo prisma, delete_todo prisma]"

text \<open>What a List shows: the array of a \<^verbatim>\<open>GET /todos\<close> answered with status 200.\<close>

definition listing :: "(string \<rightharpoonup> nat) \<Rightarrow> database \<Rightarrow> todo list option" where
  "listing rd d =
     (case fst (serve (get_todos (engine rd)) \<lparr>params_id = [], body = JNull\<rparr> d []) of
        Inr r \<Rightarrow>
          (case sent r of
             Some (SentTodos ts) \<Rightarrow> if statusCode r = 200 then Some ts else None
           | _ \<Rightarrow> None)
      | Inl _ \<Rightarrow> None)"

text \<open>The records of a list with a given content, with a given identifier.\<close>

definition with_content :: "string \<Rightarrow> todo list \<Rightarrow> todo list" where
  "with_content c ts = filter (\<lambda>t. content t = c) ts"

definition with_id :: "string \<Rightarrow> todo list \<Rightarrow> todo list" where
  "with_id i ts = filter (\<lambda>t. todo_id t = i) ts"

text \<open>Ordered by \<^verbatim>\<open>date\<close>, descending.\<close>

definition newest_first :: "todo list \<Rightarrow> bool" where
  "newest_first ts = sorted_wrt (\<lambda>a b. date b \<le> date a) ts"

text \<open>The store with the content of record \<open>i\<close> replaced, and with record \<open>i\<close> removed.\<close>

definition replace_content :: "string \<Rightarrow> string \<Rightarrow> todo list \<Rightarrow> todo list" where
  "replace_content i x ts = map (\<lambda>t. if todo_id t = i then t\<lparr>content := x\<rparr> else t) ts"

definition without_id :: "string \<Rightarrow> todo list \<Rightarrow> todo list" where
  "without_id i ts = filter (\<lambda>t. todo_id t \<noteq> i) ts"

text \<open>The request that carries \<^verbatim>\<open>{content: text}\<close>, to the record \<open>i\<close> if any.\<close>

definition content_request :: "string \<Rightarrow> string \<Rightarrow> request" where
  "content_request i text = \<lparr>params_id = i, body = JObj [(''content'', JStr text)]\<rparr>"

text \<open>A reader of dates that knows one timestamp, for the examples.\<close>

definition epoch_only :: "string \<rightharpoonup> nat" where
  "epoch_only s = (if s = ''1970-01-01T00:00:00.000Z'' then Some 0 else None)"

text \<open>The store of the specification's scenario, after \<^verbatim>\<open>POST /todo {content: "buy milk"}\<close>.\<close>

definition milk :: todo where
  "milk = \<lparr>todo_id = auto_oid 0, content = ''buy milk'', date = 0\<rparr>"

definition one_todo :: database where
  "one_todo = run epoch_only (empty_db 0 0 True) [Post (content_request [] ''buy milk'')]"

text \<open>The same store after time has passed and a second record was created.\<close>

definition eggs :: todo where
  "eggs = \<lparr>todo_id = auto_oid 1, content = ''buy eggs'', date = 5\<rparr>"

definition two_todos :: database where
  "two_todos =
     run epoch_only (empty_db 0 0 True)
       [Post (content_request [] ''buy milk''), Tick 5, Post (content_request [] ''buy eggs'')]"

section \<open>The frontend client (\<^verbatim>\<open>src/routes/api.js\<close>, lines 85 to 150)\<close>

datatype js_error = Error string | TypeError string | SyntaxError string

text \<open>What a promise of the client settles to, and the values it resolves with.\<close>

datatype js_value = Undefined | Value json

datatype 'a promise = Resolved 'a | Rejected js_error

text \<open>
  The arguments of \<^verbatim>\<open>fetch\<close>: the address and the options \<^verbatim>\<open>method\<close>,
  \<^verbatim>\<open>headers\<close> and \<^verbatim>\<open>body\<close> (here \<open>http_method\<close> and \<open>request_body\<close>). The text
  of a body is represented by the JSON value it encodes (\<^verbatim>\<open>JSON.stringify\<close>).
\<close>

record http_request =
  url :: string
  http_method :: string
  headers :: "(string \<times> string) list"
  request_body :: "json option"

text \<open>
  A response as \<^verbatim>\<open>fetch\<close> delivers it; \<open>parsed = None\<close> is a body that is not
  JSON, on which \<^verbatim>\<open>response.json()\<close> rejects.
\<close>

record fetch_response =
  status :: nat
  parsed :: "json option"

text \<open>\<^verbatim>\<open>response.ok\<close>: the status is a success.\<close>

definition ok :: "fetch_response \<Rightarrow> bool" where
  "ok response = (200 \<le> status response \<and> status response \<le> 299)"

text \<open>
  A DOM element as the client reads it: \<^verbatim>\<open>todo.dataset.id\<close> (\<open>None\<close> is
  \<^verbatim>\<open>undefined\<close>) and the value of the element that
  \<^verbatim>\<open>todo.querySelector('form input')\<close> finds (\<open>None\<close> when it finds none).
\<close>

record element =
  dataset_id :: "string option"
  form_input :: "string option"

text \<open>
  The page: \<^verbatim>\<open>style.display\<close> of the element \<^verbatim>\<open>#notices\<close> (\<open>None\<close> when the
  document has no such element), the browser console, and the requests sent so far.
\<close>

record page =
  notices :: "string option"
  logged :: "js_error list"
  requests :: "http_request list"

text \<open>A promise once settled, with the page as its callbacks left it.\<close>

type_synonym 'a async = "'a promise \<times> page"

text \<open>\<^verbatim>\<open>fetch\<close> sends the request; the network \<open>net\<close> decides how it settles.\<close>

definition fetch ::
  "(http_request \<Rightarrow> fetch_response promise) \<Rightarrow> http_request \<Rightarrow> page \<Rightarrow> fetch_response async" where
  "fetch net rq pg = (net rq, pg\<lparr>requests := requests pg @ [rq]\<rparr>)"

text \<open>\<^verbatim>\<open>promise.then(f)\<close> and \<^verbatim>\<open>promise.catch(g)\<close>\<close>

definition then_do :: "'a async \<Rightarrow> ('a \<Rightarrow> page \<Rightarrow> 'b async) \<Rightarrow> 'b async" where
  "then_do p f = (case p of (Resolved v, pg) \<Rightarrow> f v pg | (Rejected err, pg) \<Rightarrow> (Rejected err, pg))"

definition catch_do :: "'a async \<Rightarrow> (js_error \<Rightarrow> page \<Rightarrow> 'a async) \<Rightarrow> 'a async" where
  "catch_do p g = (case p of (Resolved v, pg) \<Rightarrow> (Resolved v, pg) | (Rejected err, pg) \<Rightarrow> g err pg)"

text \<open>\<^verbatim>\<open>response.json()\<close>\<close>

definition response_json :: "fetch_response \<Rightarrow> js_value promise" where
  "response_json response =
     (case parsed response of
        None \<Rightarrow> Rejected (SyntaxError ''Unexpected token'')
      | Some v \<Rightarrow> Resolved (Value v))"

text \<open>\<^verbatim>\<open>err => console.log(err)\<close>\<close>

definition log_error :: "js_error \<Rightarrow> page \<Rightarrow> js_value async" where
  "log_error err pg = (Resolved Undefined, pg\<lparr>logged := logged pg @ [err]\<rparr>)"

text \<open>\<^verbatim>\<open>document.querySelector('#notices').style.display = 'block'\<close>\<close>

definition show_notices :: "page \<Rightarrow> js_error + page" where
  "show_notices pg =
     (case notices pg of
        None \<Rightarrow> Inl (TypeError ''Cannot read properties of null'')
      | Some _ \<Rightarrow> Inr (pg\<lparr>notices := Some ''block''\<rparr>))"

text \<open>\<^verbatim>\<open>'/todo/' + todo.dataset.id\<close>\<close>

definition todo_url :: "element \<Rightarrow> string" where
  "todo_url todo = ''/todo/'' @ (case dataset_id todo of None \<Rightarrow> ''undefined'' | Some i \<Rightarrow> i)"

text \<open>\<^verbatim>\<open>{ 'Content-Type': 'application/json' }\<close>\<close>

definition json_headers :: "(string \<times> string) list" where
  "json_headers = [(''Content-Type'', ''application/json'')]"

text \<open>\<^verbatim>\<open>createData\<close> (lines 86 to 99): given a string, add it to the database.\<close>

definition createData ::
  "(http_request \<Rightarrow> fetch_response promise) \<Rightarrow> string \<Rightarrow> page \<Rightarrow> js_value async" where
  "createData net textInput pg =
     catch_do
       (then_do
          (fetch net \<lparr>url = ''/todo'', http_method = ''POST'', headers = json_headers,
                      request_body = Some (JObj [(''content'', JStr textInput)])\<rparr> pg)
          (\<lambda>response pg.
             if \<not> ok response then (Rejected (Error ''Failed to create todo''), pg)
             else (response_json response, pg)))
       log_error"

text \<open>\<^verbatim>\<open>readData\<close> (lines 102 to 117): retrieve a list of all items.\<close>

definition readData ::
  "(http_request \<Rightarrow> fetch_response promise) \<Rightarrow> page \<Rightarrow> js_value async" where
  "readData net pg =
     catch_do
       (then_do
          (fetch net \<lparr>url = ''/todos'', http_method = ''GET'', headers = [], request_body = None\<rparr> pg)
          (\<lambda>response pg.
             if \<not> ok response then
               (case show_notices pg of
                  Inl err \<Rightarrow> (Rejected err, pg)
                | Inr pg' \<Rightarrow> (Resolved (Value (JArr [])), pg'))
             else (response_json response, pg)))
       (\<lambda>err pg.
          case log_error err pg of (_, pg1) \<Rightarrow>
            (case show_notices pg1 of
               Inl err' \<Rightarrow> (Rejected err', pg1)
             | Inr pg' \<Rightarrow> (Resolved (Value (JArr [])), pg')))"

text \<open>
  \<^verbatim>\<open>updateData\<close> (lines 121 to 134). The arguments of \<^verbatim>\<open>fetch\<close> are evaluated
  first: without a nested input, reading \<^verbatim>\<open>.value\<close> of \<^verbatim>\<open>null\<close> throws inside the
  \<^verbatim>\<open>async\<close> function, whose promise is then rejected.
\<close>

definition updateData ::
  "(http_request \<Rightarrow> fetch_response promise) \<Rightarrow> element \<Rightarrow> page \<Rightarrow> js_value async" where
  "updateData net todo pg =
     (case form_input todo of
        None \<Rightarrow> (Rejected (TypeError ''Cannot read properties of null''), pg)
      | Some v \<Rightarrow>
          catch_do
            (then_do
               (fetch net \<lparr>url = todo_url todo, http_method = ''PUT'', headers = json_headers,
                           request_body = Some (JObj [(''content'', JStr v)])\<rparr> pg)
               (\<lambda>response pg.
                  if \<not> ok response then (Rejected (Error ''Failed to update todo''), pg)
                  else (response_json response, pg)))
            log_error)"

text \<open>\<^verbatim>\<open>deleteData\<close> (lines 138 to 148): given an existing item, remove it.\<close>

definition deleteData ::
  "(http_request \<Rightarrow> fetch_response promise) \<Rightarrow> element \<Rightarrow> page \<Rightarrow> js_value async" where
  "deleteData net todo pg =
     catch_do
       (then_do
          (fetch net \<lparr>url = todo_url todo, http_method = ''DELETE'', headers = json_headers,
                      request_body = None\<rparr> pg)
          (\<lambda>response pg.
             if \<not> ok response then (Rejected (Error ''Failed to delete todo''), pg)
             else (response_json response, pg)))
       log_error"

text \<open>Names for the requests the four functions hand to \<^verbatim>\<open>fetch\<close>.\<close>

abbreviation create_request :: "string \<Rightarrow> http_request" where
  "create_request textInput \<equiv>
     \<lparr>url = ''/todo'', http_method = ''POST'', headers = json_headers,
      request_body = Some (JObj [(''content'', JStr textInput)])\<rparr>"

abbreviation read_request :: http_request where
  "read_request \<equiv> \<lparr>url = ''/todos'', http_method = ''GET'', headers = [], request_body = None\<rparr>"

abbreviation update_request :: "element \<Rightarrow> string \<Rightarrow> http_request" where
  "update_request todo v \<equiv>
     \<lparr>url = todo_url todo, http_method = ''PUT'', headers = json_headers,
      request_body = Some (JObj [(''content'', JStr v)])\<rparr>"

abbreviation delete_request :: "element \<Rightarrow> http_request" where
  "delete_request todo \<equiv>
     \<lparr>url = todo_url todo, http_method = ''DELETE'', headers = json_headers,
      request_body = None\<rparr>"

text \<open>The keys of the JSON object a request carries.\<close>

definition body_keys :: "http_request \<Rightarrow> string list" where
  "body_keys rq = (case request_body rq of Some (JObj fs) \<Rightarrow> map fst fs | _ \<Rightarrow> [])"

text \<open>
  The outcomes of a \<^verbatim>\<open>fetch\<close>: it failed (a network error or a status that is not a
  success), or it delivered the JSON of a successful response.
\<close>

definition failed :: "fetch_response promise \<Rightarrow> bool" where
  "failed p = (case p of Rejected _ \<Rightarrow> True | Resolved response \<Rightarrow> \<not> ok response)"

definition delivered :: "fetch_response promise \<Rightarrow> json option" where
  "delivered p =
     (case p of Rejected _ \<Rightarrow> None
      | Resolved response \<Rightarrow> if ok response then parsed response else None)"

text \<open>The error that reaches the last \<^verbatim>\<open>catch\<close> of a write, if any.\<close>

definition thrown :: "string \<Rightarrow> fetch_response promise \<Rightarrow> js_error list" where
  "thrown msg p =
     (case p of
        Rejected err \<Rightarrow> [err]
      | Resolved response \<Rightarrow>
          if \<not> ok response then [Error msg]
          else (case parsed response of
                  None \<Rightarrow> [SyntaxError ''Unexpected token'']
                | Some _ \<Rightarrow> []))"

text \<open>Networks and a page for the examples.\<close>

definition unreachable :: "http_request \<Rightarrow> fetch_response promise" where
  "unreachable rq = Rejected (TypeError ''Failed to fetch'')"

definition answers :: "nat \<Rightarrow> json option \<Rightarrow> http_request \<Rightarrow> fetch_response promise" where
  "answers code b rq = Resolved \<lparr>status = code, parsed = b\<rparr>"

definition hidden_notices :: page where
  "hidden_notices = \<lparr>notices = Some ''none'', logged = [], requests = []\<rparr>"

definition item :: element where
  "item = \<lparr>dataset_id = Some (auto_oid 0), form_input = Some ''buy oat milk''\<rparr>"

definition bare_item :: element where
  "bare_item = \<lparr>dataset_id = Some (auto_oid 0), form_input = None\<rparr>"

section \<open>The router answers every request\<close>

declare order_by_date.simps [simp del]

lemmas stmt_defs = seq_def try_catch_def console_log_def await_def res_status_def res_send_def
  serve_def new_response_def

lemma serve_post_todo:
  "serve (post_todo prisma) req d out =
     (case todo_create prisma (body req) d of
        (Inl err, d') \<Rightarrow> (Inr \<lparr>statusCode = 500, sent = Some (SentError err)\<rparr>, d', out @ [body req])
      | (Inr t, d') \<Rightarrow> (Inr \<lparr>statusCode = 200, sent = Some (SentTodo t)\<rparr>, d', out @ [body req]))"
  by (simp add: post_todo_def stmt_defs split: prod.splits sum.splits)

lemma serve_get_todos:
  "serve (get_todos prisma) req d out =
     (case todo_findMany prisma NoFilter Desc d of
        (Inl err, d') \<Rightarrow> (Inr \<lparr>statusCode = 500, sent = Some (SentError err)\<rparr>, d', out)
      | (Inr ts, d') \<Rightarrow> (Inr \<lparr>statusCode = 200, sent = Some (SentTodos ts)\<rparr>, d', out))"
  by (simp add: get_todos_def stmt_defs split: prod.splits sum.splits)

lemma serve_put_todo:
  "serve (put_todo prisma) req d out =
     (case todo_update prisma (params_id req) (body req) d of
        (Inl err, d') \<Rightarrow> (Inr \<lparr>statusCode = 500, sent = Some (SentError err)\<rparr>, d', out)
      | (Inr t, d') \<Rightarrow> (Inr \<lparr>statusCode = 200, sent = Some (SentTodo t)\<rparr>, d', out))"
  by (simp add: put_todo_def stmt_defs split: prod.splits sum.splits)

lemma serve_delete_todo:
  "serve (delete_todo prisma) req d out =
     (case todo_delete prisma (params_id req) d of
        (Inl err, d') \<Rightarrow> (Inr \<lparr>statusCode = 500, sent = Some (SentError err)\<rparr>, d', out)
      | (Inr t, d') \<Rightarrow> (Inr \<lparr>statusCode = 200, sent = Some (SentTodo t)\<rparr>, d', out))"
  by (simp add: delete_todo_def stmt_defs split: prod.splits sum.splits)

text \<open>
  Claim C1. Whatever the storage collaborator is, when its call throws \<open>err\<close> the
  handler of each of the four endpoints catches it and answers with status 500 and
  \<open>err\<close> itself as the body. No handler lets an exception escape (the result is never
  \<open>Inl\<close>), and the only statuses are 200 and 500.
\<close>

theorem storage_failure_is_500:
  "(fst (todo_create prisma (body req) d) = Inl err \<longrightarrow>
      fst (serve (post_todo prisma) req d out)
        = Inr \<lparr>statusCode = 500, sent = Some (SentError err)\<rparr>)
   \<and> (fst (todo_findMany prisma NoFilter Desc d) = Inl err \<longrightarrow>
      fst (serve (get_todos prisma) req d out)
        = Inr \<lparr>statusCode = 500, sent = Some (SentError err)\<rparr>)
   \<and> (fst (todo_update prisma (params_id req) (body req) d) = Inl err \<longrightarrow>
      fst (serve (put_todo prisma) req d out)
        = Inr \<lparr>statusCode = 500, sent = Some (SentError err)\<rparr>)
   \<and> (fst (todo_delete prisma (params_id req) d) = Inl err \<longrightarrow>
      fst (serve (delete_todo prisma) req d out)
        = Inr \<lparr>statusCode = 500, sent = Some (SentError err)\<rparr>)
   \<and> (\<forall>h \<in> set (handlers prisma).
        \<exists>r. fst (serve h req d out) = Inr r \<and> statusCode r \<in> {200, 500})"
  by (auto simp add: handlers_def serve_post_todo serve_get_todos serve_put_todo
      serve_delete_todo split: prod.splits sum.splits)

theorem storage_failure_is_500_witness:
  "fst (serve (post_todo (engine epoch_only))
          (content_request ''000000000000000000000000'' ''buy milk'') (empty_db 0 0 False) [])
     = Inr \<lparr>statusCode = 500, sent = Some (SentError Unreachable)\<rparr>
   \<and> fst (serve (get_todos (engine epoch_only))
          (content_request ''000000000000000000000000'' ''buy milk'') (empty_db 0 0 False) [])
     = Inr \<lparr>statusCode = 500, sent = Some (SentError Unreachable)\<rparr>
   \<and> fst (serve (put_todo (engine epoch_only))
          (content_request ''000000000000000000000000'' ''buy milk'') (empty_db 0 0 False) [])
     = Inr \<lparr>statusCode = 500, sent = Some (SentError Unreachable)\<rparr>
   \<and> fst (serve (delete_todo (engine epoch_only))
          (content_request ''000000000000000000000000'' ''buy milk'') (empty_db 0 0 False) [])
     = Inr \<lparr>statusCode = 500, sent = Some (SentError Unreachable)\<rparr>
   \<and> (\<exists>r. fst (serve (delete_todo (engine epoch_only))
          (content_request ''000000000000000000000000'' ''buy milk'') (empty_db 0 0 False) [])
        = Inr r \<and> statusCode r \<in> {200, 500})"
proof -
  let ?req = "content_request ''000000000000000000000000'' ''buy milk''"
  let ?d = "empty_db 0 0 False"
  have c: "fst (todo_create (engine epoch_only) (body ?req) ?d) = Inl Unreachable"
    by (simp add: engine_def engine_create_def create_input_def known_fields_def optional_def
        content_request_def empty_db_def)
  have f: "fst (todo_findMany (engine epoch_only) NoFilter Desc ?d) = Inl Unreachable"
    by (simp add: engine_def engine_findMany_def empty_db_def)
  have u: "fst (todo_update (engine epoch_only) (params_id ?req) (body ?req) ?d) = Inl Unreachable"
    by (simp add: engine_def engine_update_def update_input_def known_fields_def optional_def
        content_request_def empty_db_def is_object_id_def is_hex_def)
  have e: "fst (todo_delete (engine epoch_only) (params_id ?req) ?d) = Inl Unreachable"
    by (simp add: engine_def engine_delete_def content_request_def empty_db_def
        is_object_id_def is_hex_def)
  have h: "delete_todo (engine epoch_only) \<in> set (handlers (engine epoch_only))"
    by (simp add: handlers_def)
  from storage_failure_is_500 [of "engine epoch_only" ?req ?d Unreachable "[]"] c f u e h
  show ?thesis by blast
qed

section \<open>Facts about the storage engine\<close>

lemma hex_digit_is_hex: "is_hex (hex_digit n)"
proof -
  have "n mod 16 < length ''0123456789abcdef''" by simp
  then have "''0123456789abcdef'' ! (n mod 16) \<in> set ''0123456789abcdef''"
    by (rule nth_mem)
  then show ?thesis
    unfolding hex_digit_def is_hex_def by auto
qed

lemma length_hex_digits: "length (hex_digits k n) = k"
  by (induction k arbitrary: n) simp_all

lemma hex_digits_all_hex: "list_all is_hex (hex_digits k n)"
  by (induction k arbitrary: n) (simp_all add: hex_digit_is_hex)

lemma auto_oid_wellformed: "is_object_id (auto_oid n)"
  by (simp add: is_object_id_def auto_oid_def length_hex_digits hex_digits_all_hex)

lemma mset_order_by_date: "mset (order_by_date ord ts) = mset ts"
  by (cases ord) (simp_all add: order_by_date.simps)

lemma newest_first_order_by_date: "newest_first (order_by_date Desc ts)"
proof -
  have "sorted (map (\<lambda>t. - int (date t)) (sort_key (\<lambda>t. - int (date t)) ts))"
    by (rule sorted_sort_key)
  then show ?thesis
    by (simp add: newest_first_def sorted_map order_by_date.simps)
qed

lemma findMany_online:
  "online d \<Longrightarrow>
   todo_findMany (engine rd) NoFilter Desc d = (Inr (order_by_date Desc (records d)), d)"
  by (simp add: engine_def engine_findMany_def)

lemma findMany_offline:
  "\<not> online d \<Longrightarrow> todo_findMany (engine rd) NoFilter Desc d = (Inl Unreachable, d)"
  by (simp add: engine_def engine_findMany_def)

lemma listing_online: "online d \<Longrightarrow> listing rd d = Some (order_by_date Desc (records d))"
  by (simp add: listing_def serve_get_todos findMany_online)


lemma filter_order_by_date: "filter P (order_by_date ord ts) = order_by_date ord (filter P ts)"
  by (cases ord) (simp_all add: filter_sort order_by_date.simps)

lemma find_by_id:
  "distinct (map todo_id ts) \<Longrightarrow> t \<in> set ts \<Longrightarrow> find (\<lambda>r. todo_id r = todo_id t) ts = Some t"
proof (induction ts)
  case Nil
  then show ?case by simp
next
  case (Cons a ts)
  show ?case
  proof (cases "a = t")
    case True
    then show ?thesis by simp
  next
    case False
    with Cons.prems have "t \<in> set ts" by simp
    with Cons.prems have "todo_id a \<noteq> todo_id t" by force
    with Cons \<open>t \<in> set ts\<close> show ?thesis by simp
  qed
qed

lemma find_absent: "i \<notin> set (map todo_id ts) \<Longrightarrow> find (\<lambda>r. todo_id r = i) ts = None"
  by (induction ts) auto

lemma with_id_absent: "i \<notin> set (map todo_id ts) \<Longrightarrow> with_id i ts = []"
  by (induction ts) (auto simp: with_id_def)

lemma with_id_present:
  "distinct (map todo_id ts) \<Longrightarrow> t \<in> set ts \<Longrightarrow> with_id (todo_id t) ts = [t]"
proof (induction ts)
  case Nil
  then show ?case by simp
next
  case (Cons a ts)
  show ?case
  proof (cases "a = t")
    case True
    with Cons.prems have "todo_id t \<notin> set (map todo_id ts)" by simp
    then have "with_id (todo_id t) ts = []" by (rule with_id_absent)
    with True show ?thesis by (simp add: with_id_def)
  next
    case False
    with Cons.prems have "t \<in> set ts" by simp
    with Cons.prems have "todo_id a \<noteq> todo_id t" by force
    with Cons \<open>t \<in> set ts\<close> show ?thesis by (simp add: with_id_def)
  qed
qed

lemma with_id_replace_content:
  "with_id i (replace_content i x ts) = map (\<lambda>t. t\<lparr>content := x\<rparr>) (with_id i ts)"
  by (induction ts) (simp_all add: with_id_def replace_content_def)

lemma without_id_replace_content:
  "without_id i (replace_content i x ts) = without_id i ts"
  by (induction ts) (simp_all add: without_id_def replace_content_def)

lemma with_id_order: "with_id i (order_by_date ord ts) = order_by_date ord (with_id i ts)"
  by (simp add: with_id_def filter_order_by_date)

lemma without_id_order: "without_id i (order_by_date ord ts) = order_by_date ord (without_id i ts)"
  by (simp add: without_id_def filter_order_by_date)

lemma order_by_date_single: "order_by_date ord [t] = [t]"
  by (cases ord) (simp_all add: order_by_date.simps)

lemma update_input_content:
  "update_input rd (JObj [(''content'', JStr x)]) = Some (Some x, None)"
  by (simp add: update_input_def known_fields_def optional_def)

lemma merge_content_only: "merge_fields (Some x) None t = t\<lparr>content := x\<rparr>"
  by (simp add: merge_fields_def)

lemma update_content:
  assumes "online d" and "distinct (ids d)" and "t \<in> set (records d)"
    and "is_object_id (todo_id t)"
  shows "todo_update (engine rd) (todo_id t) (JObj [(''content'', JStr x)]) d
           = (Inr (t\<lparr>content := x\<rparr>),
              d\<lparr>records := replace_content (todo_id t) x (records d)\<rparr>)"
proof -
  from assms have "find (\<lambda>r. todo_id r = todo_id t) (records d) = Some t"
    by (simp add: ids_def find_by_id)
  with assms show ?thesis
    by (simp add: engine_def engine_update_def update_input_content merge_content_only
        replace_content_def)
qed


lemma after_post: "after (post_todo prisma) req d = snd (todo_create prisma (body req) d)"
  by (simp add: after_def serve_post_todo split: prod.splits sum.splits)

lemma after_get: "after (get_todos prisma) req d = snd (todo_findMany prisma NoFilter Desc d)"
  by (simp add: after_def serve_get_todos split: prod.splits sum.splits)

lemma after_put:
  "after (put_todo prisma) req d = snd (todo_update prisma (params_id req) (body req) d)"
  by (simp add: after_def serve_put_todo split: prod.splits sum.splits)

lemma after_delete: "after (delete_todo prisma) req d = snd (todo_delete prisma (params_id req) d)"
  by (simp add: after_def serve_delete_todo split: prod.splits sum.splits)

lemma ids_create:
  "ids (snd (engine_create rd data d)) = ids d
   \<or> (\<exists>i. i \<notin> set (ids d) \<and> ids (snd (engine_create rd data d)) = ids d @ [i])"
  by (simp add: engine_create_def Let_def ids_def split: option.splits prod.splits)

lemma ids_findMany: "snd (engine_findMany flt ord d) = d"
  by (simp add: engine_findMany_def)

lemma ids_update: "ids (snd (engine_update rd i data d)) = ids d"
proof -
  have "map todo_id (map (\<lambda>r. if todo_id r = i then merge_fields c dt r else r) ts)
          = map todo_id ts"
    for c dt and ts :: "todo list"
    by (induction ts) (simp_all add: merge_fields_def)
  then show ?thesis
    by (simp add: engine_update_def ids_def split: option.splits prod.splits)
qed

lemma ids_delete:
  "ids (snd (engine_delete i d)) = ids d \<or> ids (snd (engine_delete i d)) = removeAll i (ids d)"
proof -
  have "map todo_id (filter (\<lambda>r. todo_id r \<noteq> i) ts) = removeAll i (map todo_id ts)"
    for ts :: "todo list"
    by (induction ts) auto
  then show ?thesis
    by (simp add: engine_delete_def ids_def split: option.splits)
qed

lemma ids_post:
  "ids (step rd d (Post req)) = ids d
   \<or> (\<exists>i. i \<notin> set (ids d) \<and> ids (step rd d (Post req)) = ids d @ [i])"
  using ids_create [of rd "body req" d] by (simp add: after_post engine_def)

lemma ids_get: "ids (step rd d (Get req)) = ids d"
  by (simp add: after_get engine_def ids_findMany)

lemma ids_put: "ids (step rd d (Put req)) = ids d"
  by (simp add: after_put engine_def ids_update)

lemma ids_del:
  "ids (step rd d (Delete req)) = ids d
   \<or> ids (step rd d (Delete req)) = removeAll (params_id req) (ids d)"
  using ids_delete [of "params_id req" d] by (simp add: after_delete engine_def)

lemma ids_env: "ids (step rd d (Tick k)) = ids d" "ids (step rd d (Link b)) = ids d"
  by (simp_all add: ids_def)

lemma step_distinct: "distinct (ids d) \<Longrightarrow> distinct (ids (step rd d ev))"
proof (cases ev)
  case (Post req)
  assume "distinct (ids d)"
  with ids_post [of rd d req] Post show ?thesis by auto
next
  case (Get req)
  assume "distinct (ids d)"
  with ids_get [of rd d req] Get show ?thesis by simp
next
  case (Put req)
  assume "distinct (ids d)"
  with ids_put [of rd d req] Put show ?thesis by simp
next
  case (Delete req)
  assume "distinct (ids d)"
  with ids_del [of rd d req] Delete show ?thesis by (auto simp add: distinct_removeAll)
next
  case (Tick k)
  assume "distinct (ids d)"
  with Tick show ?thesis by (simp add: ids_def)
next
  case (Link b)
  assume "distinct (ids d)"
  with Link show ?thesis by (simp add: ids_def)
qed

lemma run_distinct: "distinct (ids d) \<Longrightarrow> distinct (ids (run rd d evs))"
  unfolding run_def
  by (induction evs arbitrary: d) (simp_all add: step_distinct)

lemma create_oid_wellformed:
  "list_all is_object_id (ids d) \<Longrightarrow> list_all is_object_id (ids (snd (engine_create rd data d)))"
proof -
  assume wf: "list_all is_object_id (ids d)"
  have "is_object_id i" if "create_input rd data = Some (Some i, c, dt)" for i c dt
  proof -
    from that obtain fs where "optional as_oid fs ''id'' = Some (Some i)"
      by (auto simp add: create_input_def split: json.splits if_splits option.splits)
    then obtain v where "as_oid v = Some i"
      by (auto simp add: optional_def split: option.splits)
    then show ?thesis by (cases v) (auto split: if_splits)
  qed
  with wf show ?thesis
    by (auto simp add: engine_create_def Let_def ids_def auto_oid_wellformed
        split: option.splits prod.splits)
qed

lemma step_wellformed:
  "list_all is_object_id (ids d) \<Longrightarrow> list_all is_object_id (ids (step rd d ev))"
proof (cases ev)
  case (Post req)
  assume "list_all is_object_id (ids d)"
  with create_oid_wellformed [of d rd "body req"] Post show ?thesis
    by (simp add: after_post engine_def)
next
  case (Get req)
  assume "list_all is_object_id (ids d)"
  with ids_get [of rd d req] Get show ?thesis by simp
next
  case (Put req)
  assume "list_all is_object_id (ids d)"
  with ids_put [of rd d req] Put show ?thesis by simp
next
  case (Delete req)
  assume "list_all is_object_id (ids d)"
  with ids_del [of rd d req] Delete show ?thesis by (auto simp add: list_all_iff)
next
  case (Tick k)
  assume "list_all is_object_id (ids d)"
  with Tick show ?thesis by (simp add: ids_def)
next
  case (Link b)
  assume "list_all is_object_id (ids d)"
  with Link show ?thesis by (simp add: ids_def)
qed

lemma run_wellformed:
  "list_all is_object_id (ids d) \<Longrightarrow> list_all is_object_id (ids (run rd d evs))"
  unfolding run_def
  by (induction evs arbitrary: d) (simp_all add: step_wellformed)

lemma reachable_record:
  assumes "d = run rd (empty_db n c b) evs" and "t \<in> set (records d)"
  shows "distinct (ids d) \<and> is_object_id (todo_id t)"
proof -
  have e: "distinct (ids (empty_db n c b))" "list_all is_object_id (ids (empty_db n c b))"
    by (simp_all add: empty_db_def ids_def)
  from e(1) assms(1) have "distinct (ids d)"
    by (simp add: run_distinct)
  moreover from e(2) assms(1) have "list_all is_object_id (ids d)"
    by (simp add: run_wellformed)
  with assms(2) have "is_object_id (todo_id t)"
    by (auto simp add: list_all_iff ids_def)
  ultimately show ?thesis by blast
qed

lemma one_todo_value:
  "one_todo = \<lparr>records = [milk], next_oid = 1, clock = 0, online = True\<rparr>"
  by code_simp

section \<open>List\<close>

text \<open>
  Claim C2. On every store that can be reached, \<^verbatim>\<open>GET /todos\<close> succeeds: the answer
  has status 200 and its array holds exactly the stored records (as a multiset), most
  recent \<^verbatim>\<open>date\<close> first; it is the empty array when nothing is stored. The store is
  left as it was.
\<close>

theorem list_newest_first:
  "online d \<Longrightarrow>
   \<exists>ts. serve (get_todos (engine rd)) req d out
          = (Inr \<lparr>statusCode = 200, sent = Some (SentTodos ts)\<rparr>, d, out)
      \<and> newest_first ts \<and> mset ts = mset (records d) \<and> (records d = [] \<longrightarrow> ts = [])"
proof -
  assume on: "online d"
  let ?ts = "order_by_date Desc (records d)"
  have "serve (get_todos (engine rd)) req d out
          = (Inr \<lparr>statusCode = 200, sent = Some (SentTodos ?ts)\<rparr>, d, out)"
    using on by (simp add: serve_get_todos findMany_online)
  moreover have "newest_first ?ts" by (rule newest_first_order_by_date)
  moreover have "mset ?ts = mset (records d)" by (rule mset_order_by_date)
  moreover have "records d = [] \<longrightarrow> ?ts = []" by (simp add: order_by_date.simps)
  ultimately show ?thesis by blast
qed

theorem list_newest_first_witness:
  "online two_todos
   \<and> serve (get_todos (engine epoch_only)) (content_request [] []) two_todos []
       = (Inr \<lparr>statusCode = 200, sent = Some (SentTodos [eggs, milk])\<rparr>, two_todos, [])
   \<and> newest_first [eggs, milk]
   \<and> mset [eggs, milk] = mset (records two_todos)
   \<and> online (empty_db 0 0 True)
   \<and> records (empty_db 0 0 True) = []
   \<and> serve (get_todos (engine epoch_only)) (content_request [] []) (empty_db 0 0 True) []
       = (Inr \<lparr>statusCode = 200, sent = Some (SentTodos [])\<rparr>, empty_db 0 0 True, [])"
proof -
  have h2: "online two_todos"
    by code_simp
  have h0: "online (empty_db 0 0 True)" and e0: "records (empty_db 0 0 True) = []"
    by (simp_all add: empty_db_def)
  have s2: "serve (get_todos (engine epoch_only)) (content_request [] []) two_todos []
       = (Inr \<lparr>statusCode = 200, sent = Some (SentTodos [eggs, milk])\<rparr>, two_todos, [])"
    by code_simp
  from list_newest_first [OF h2, of epoch_only "content_request [] []" "[]"] s2
  have two: "newest_first [eggs, milk] \<and> mset [eggs, milk] = mset (records two_todos)"
    by auto
  from list_newest_first [OF h0, of epoch_only "content_request [] []" "[]"] e0
  have "serve (get_todos (engine epoch_only)) (content_request [] []) (empty_db 0 0 True) []
       = (Inr \<lparr>statusCode = 200, sent = Some (SentTodos [])\<rparr>, empty_db 0 0 True, [])"
    by auto
  with h2 h0 e0 s2 two show ?thesis by blast
qed

section \<open>Update\<close>

lemma update_existing_record:
  assumes "online d" and "distinct (ids d)" and "t \<in> set (records d)"
    and "is_object_id (todo_id t)"
  shows "serve (put_todo (engine rd)) (content_request (todo_id t) x) d out
           = (Inr \<lparr>statusCode = 200, sent = Some (SentTodo (t\<lparr>content := x\<rparr>))\<rparr>,
              d\<lparr>records := replace_content (todo_id t) x (records d)\<rparr>, out)
         \<and> (\<exists>before after.
              listing rd d = Some before
              \<and> listing rd (d\<lparr>records := replace_content (todo_id t) x (records d)\<rparr>) = Some after
              \<and> with_id (todo_id t) after = [t\<lparr>content := x\<rparr>]
              \<and> without_id (todo_id t) after = without_id (todo_id t) before)"
proof -
  let ?i = "todo_id t"
  let ?d' = "d\<lparr>records := replace_content ?i x (records d)\<rparr>"
  have put: "serve (put_todo (engine rd)) (content_request ?i x) d out
           = (Inr \<lparr>statusCode = 200, sent = Some (SentTodo (t\<lparr>content := x\<rparr>))\<rparr>, ?d', out)"
    using update_content [OF assms, of rd x]
    by (simp add: serve_put_todo content_request_def)
  have l0: "listing rd d = Some (order_by_date Desc (records d))"
    using assms(1) by (rule listing_online)
  have l1: "listing rd ?d' = Some (order_by_date Desc (records ?d'))"
    using assms(1) by (simp add: listing_online)
  have "with_id ?i (records d) = [t]"
    using assms(2,3) by (simp add: ids_def with_id_present)
  then have w: "with_id ?i (order_by_date Desc (records ?d')) = [t\<lparr>content := x\<rparr>]"
    by (simp add: with_id_order with_id_replace_content order_by_date_single)
  have o: "without_id ?i (order_by_date Desc (records ?d'))
            = without_id ?i (order_by_date Desc (records d))"
    by (simp add: without_id_order without_id_replace_content)
  from put l0 l1 w o show ?thesis by blast
qed

text \<open>
  Claim C3. Let \<open>t\<close> be a record of a store reached from the empty store by any
  sequence of requests, with the database reachable. \<^verbatim>\<open>PUT /todo/:id\<close> with the body
  \<^verbatim>\<open>{content: x}\<close> answers 200 with \<open>t\<close> carrying the new content; in the store, and in
  what a List shows afterwards, the record with that identifier is \<open>t\<close> with its content
  replaced and its identifier and date as before, and every other record is as it was.
\<close>

theorem update_sets_content_only:
  assumes "d = run rd (empty_db n c b) evs" and "online d" and "t \<in> set (records d)"
  shows "serve (put_todo (engine rd)) (content_request (todo_id t) x) d out
           = (Inr \<lparr>statusCode = 200, sent = Some (SentTodo (t\<lparr>content := x\<rparr>))\<rparr>,
              d\<lparr>records := replace_content (todo_id t) x (records d)\<rparr>, out)
         \<and> (\<exists>before after.
              listing rd d = Some before
              \<and> listing rd (d\<lparr>records := replace_content (todo_id t) x (records d)\<rparr>) = Some after
              \<and> with_id (todo_id t) after = [t\<lparr>content := x\<rparr>]
              \<and> without_id (todo_id t) after = without_id (todo_id t) before)"
proof -
  from reachable_record [OF assms(1,3)]
  have i: "distinct (ids d)" and w: "is_object_id (todo_id t)"
    by simp_all
  show ?thesis
    by (rule update_existing_record [OF assms(2) i assms(3) w])
qed

theorem update_sets_content_only_witness:
  "one_todo = run epoch_only (empty_db 0 0 True) [Post (content_request [] ''buy milk'')]
   \<and> online one_todo \<and> milk \<in> set (records one_todo)
   \<and> serve (put_todo (engine epoch_only)) (content_request (todo_id milk) ''buy oat milk'')
        one_todo []
      = (Inr \<lparr>statusCode = 200, sent = Some (SentTodo (milk\<lparr>content := ''buy oat milk''\<rparr>))\<rparr>,
         one_todo\<lparr>records := replace_content (todo_id milk) ''buy oat milk'' (records one_todo)\<rparr>,
         [])
   \<and> replace_content (todo_id milk) ''buy oat milk'' (records one_todo)
      = [milk\<lparr>content := ''buy oat milk''\<rparr>]"
proof -
  have h1: "one_todo = run epoch_only (empty_db 0 0 True) [Post (content_request [] ''buy milk'')]"
    by (rule one_todo_def)
  have h2: "online one_todo" by (simp add: one_todo_value)
  have h3: "milk \<in> set (records one_todo)" by (simp add: one_todo_value)
  have r: "replace_content (todo_id milk) ''buy oat milk'' (records one_todo)
      = [milk\<lparr>content := ''buy oat milk''\<rparr>]"
    by (simp add: one_todo_value replace_content_def)
  from update_sets_content_only [OF h1 h2 h3, of "''buy oat milk''" "[]"] h1 h2 h3 r
  show ?thesis by blast
qed

lemma length_order_by_date: "length (order_by_date ord ts) = length ts"
  using mset_order_by_date [of ord ts] by (metis size_mset)

lemma with_content_order:
  "with_content c (order_by_date ord ts) = order_by_date ord (with_content c ts)"
  by (simp add: with_content_def filter_order_by_date)

lemma create_input_content_only:
  assumes "map_of fs ''content'' = Some v" and "map_of fs ''id'' = None"
    and "map_of fs ''date'' = None"
  shows "create_input rd (JObj fs) =
          (if known_fields [''id'', ''content'', ''date''] fs
           then (case v of JStr c \<Rightarrow> Some (None, c, None) | _ \<Rightarrow> None) else None)"
  using assms by (simp add: create_input_def optional_def split: json.splits)

lemma create_assigned:
  assumes "create_input rd data = Some (None, c, None)"
  shows "engine_create rd data d =
          (if \<not> online d then (Inl Unreachable, d)
           else if auto_oid (next_oid d) \<in> set (ids d)
             then (Inl UniqueConstraint, d\<lparr>next_oid := Suc (next_oid d)\<rparr>)
           else (Inr \<lparr>todo_id = auto_oid (next_oid d), content = c, date = clock d\<rparr>,
                 d\<lparr>next_oid := Suc (next_oid d),
                   records := records d
                     @ [\<lparr>todo_id = auto_oid (next_oid d), content = c, date = clock d\<rparr>]\<rparr>))"
  using assms by (simp add: engine_create_def Let_def)

lemma create_malformed:
  assumes "create_input rd data = None"
  shows "engine_create rd data d = (Inl ValidationError, d)"
  using assms by (simp add: engine_create_def)


section \<open>Create\<close>

text \<open>
  Claim C4, as amended. Let the body of \<^verbatim>\<open>POST /todo\<close> be an object with a
  \<^verbatim>\<open>content\<close> field and neither \<^verbatim>\<open>id\<close> nor \<^verbatim>\<open>date\<close>. When the answer has status
  200, its body is the created record \<open>t\<close>: its content is the body's, its date is the
  engine's clock at the insert, its identifier is generated by the engine and was not in
  use. The store gains \<open>t\<close> and nothing else. A List afterwards shows \<open>t\<close> exactly once,
  and one more record with that content than the store held before: exactly one only
  when no stored record had that content already.
\<close>

theorem create_adds_one_record:
  assumes "body req = JObj fs" and "map_of fs ''content'' = Some v"
    and "map_of fs ''id'' = None" and "map_of fs ''date'' = None"
    and "serve (post_todo (engine rd)) req d out = (Inr r, d', out')"
    and "statusCode r = 200"
  shows "\<exists>t. sent r = Some (SentTodo t) \<and> v = JStr (content t) \<and> date t = clock d
           \<and> todo_id t = auto_oid (next_oid d) \<and> todo_id t \<notin> set (ids d)
           \<and> records d' = records d @ [t]
           \<and> (\<exists>ts. listing rd d' = Some ts \<and> with_id (todo_id t) ts = [t]
                \<and> length (with_content (content t) ts)
                    = Suc (length (with_content (content t) (records d))))"
proof -
  let ?t = "\<lambda>c. \<lparr>todo_id = auto_oid (next_oid d), content = c, date = clock d\<rparr>"
  from assms(1,5,6) have ok: "\<exists>t. todo_create (engine rd) (JObj fs) d = (Inr t, d')
      \<and> sent r = Some (SentTodo t)"
    by (auto simp add: serve_post_todo split: prod.splits sum.splits)
  then obtain t where ct: "engine_create rd (JObj fs) d = (Inr t, d')"
    and r: "sent r = Some (SentTodo t)"
    by (auto simp add: engine_def)
  have "\<exists>c. create_input rd (JObj fs) = Some (None, c, None) \<and> v = JStr c"
  proof (cases "create_input rd (JObj fs)")
    case None
    with ct show ?thesis by (simp add: create_malformed)
  next
    case (Some a)
    with create_input_content_only [OF assms(2,3,4), of rd] show ?thesis
      by (auto split: if_splits json.splits)
  qed
  then obtain c where ci: "create_input rd (JObj fs) = Some (None, c, None)"
    and v: "v = JStr c"
    by blast
  from ct create_assigned [OF ci, of d]
  have on: "online d" and fresh: "auto_oid (next_oid d) \<notin> set (ids d)"
    and t: "t = ?t c"
    and d': "d' = d\<lparr>next_oid := Suc (next_oid d), records := records d @ [?t c]\<rparr>"
    by (auto split: if_splits)
  from t have t': "content t = c" "date t = clock d" "todo_id t = auto_oid (next_oid d)"
    by simp_all
  from d' t have recs: "records d' = records d @ [t]"
    by simp
  from d' on have on': "online d'"
    by simp
  then have l: "listing rd d' = Some (order_by_date Desc (records d'))"
    by (rule listing_online)
  from fresh t' have fresh': "todo_id t \<notin> set (ids d)"
    by simp
  then have "with_id (todo_id t) (records d) = []"
    by (simp add: ids_def with_id_absent)
  then have "with_id (todo_id t) (records d') = [t]"
    by (simp add: recs with_id_def)
  then have w: "with_id (todo_id t) (order_by_date Desc (records d')) = [t]"
    by (simp add: with_id_order order_by_date_single)
  have "with_content (content t) (records d') = with_content (content t) (records d) @ [t]"
    by (simp add: recs with_content_def)
  then have n: "length (with_content (content t) (order_by_date Desc (records d')))
                 = Suc (length (with_content (content t) (records d)))"
    by (simp add: with_content_order length_order_by_date)
  from r v t' fresh' recs l w n show ?thesis by blast
qed


theorem create_adds_one_record_witness:
  "body (content_request [] ''buy milk'') = JObj [(''content'', JStr ''buy milk'')]
   \<and> map_of [(''content'', JStr ''buy milk'')] ''content'' = Some (JStr ''buy milk'')
   \<and> map_of [(''content'', JStr ''buy milk'')] ''id'' = None
   \<and> map_of [(''content'', JStr ''buy milk'')] ''date'' = None
   \<and> serve (post_todo (engine epoch_only)) (content_request [] ''buy milk'') (empty_db 0 0 True) []
       = (Inr \<lparr>statusCode = 200, sent = Some (SentTodo milk)\<rparr>, one_todo,
          [JObj [(''content'', JStr ''buy milk'')]])
   \<and> (\<exists>t. sent \<lparr>statusCode = 200, sent = Some (SentTodo milk)\<rparr> = Some (SentTodo t)
         \<and> JStr ''buy milk'' = JStr (content t) \<and> date t = clock (empty_db 0 0 True)
         \<and> todo_id t = auto_oid (next_oid (empty_db 0 0 True))
         \<and> todo_id t \<notin> set (ids (empty_db 0 0 True))
         \<and> records one_todo = records (empty_db 0 0 True) @ [t]
         \<and> (\<exists>ts. listing epoch_only one_todo = Some ts \<and> with_id (todo_id t) ts = [t]
              \<and> length (with_content (content t) ts)
                  = Suc (length (with_content (content t) (records (empty_db 0 0 True))))))"
proof -
  have h1: "body (content_request [] ''buy milk'') = JObj [(''content'', JStr ''buy milk'')]"
    by (simp add: content_request_def)
  have h2: "map_of [(''content'', JStr ''buy milk'')] ''content'' = Some (JStr ''buy milk'')"
    by simp
  have h3: "map_of [(''content'', JStr ''buy milk'')] ''id'' = None"
    by simp
  have h4: "map_of [(''content'', JStr ''buy milk'')] ''date'' = None"
    by simp
  have h5: "serve (post_todo (engine epoch_only)) (content_request [] ''buy milk'')
              (empty_db 0 0 True) []
            = (Inr \<lparr>statusCode = 200, sent = Some (SentTodo milk)\<rparr>, one_todo,
               [JObj [(''content'', JStr ''buy milk'')]])"
    by code_simp
  have h6: "statusCode \<lparr>statusCode = 200, sent = Some (SentTodo milk)\<rparr> = 200"
    by simp
  from create_adds_one_record [OF h1 h2 h3 h4 h5 h6] h1 h2 h3 h4 h5
  show ?thesis by blast
qed

text \<open>
  Claim C4 as stated fails: on the store that already holds "buy milk", a second
  \<^verbatim>\<open>POST /todo {content: "buy milk"}\<close> is answered with status 200, and the List that
  follows shows two records with that content.
\<close>

theorem create_twice_counterexample:
  "fst (serve (post_todo (engine epoch_only)) (content_request [] ''buy milk'') one_todo [])
     = Inr \<lparr>statusCode = 200,
            sent = Some (SentTodo \<lparr>todo_id = auto_oid 1, content = ''buy milk'', date = 0\<rparr>)\<rparr>
   \<and> listing epoch_only
        (after (post_todo (engine epoch_only)) (content_request [] ''buy milk'') one_todo)
     = Some [milk, \<lparr>todo_id = auto_oid 1, content = ''buy milk'', date = 0\<rparr>]
   \<and> length (with_content ''buy milk''
        [milk, \<lparr>todo_id = auto_oid 1, content = ''buy milk'', date = 0\<rparr>]) = 2"
  by code_simp

section \<open>Delete\<close>

lemma delete_existing:
  assumes "online d" and "distinct (ids d)" and "t \<in> set (records d)"
    and "is_object_id (todo_id t)"
  shows "todo_delete (engine rd) (todo_id t) d
           = (Inr t, d\<lparr>records := without_id (todo_id t) (records d)\<rparr>)"
proof -
  from assms have "find (\<lambda>r. todo_id r = todo_id t) (records d) = Some t"
    by (simp add: ids_def find_by_id)
  with assms show ?thesis
    by (simp add: engine_def engine_delete_def without_id_def)
qed

lemma delete_absent:
  assumes "i \<notin> set (ids d)" and "online d" and "is_object_id i"
  shows "todo_delete (engine rd) i d = (Inl RecordNotFound, d)"
proof -
  from assms have "find (\<lambda>r. todo_id r = i) (records d) = None"
    by (simp add: ids_def find_absent)
  with assms show ?thesis
    by (simp add: engine_def engine_delete_def)
qed

lemma ids_without_id: "map todo_id (without_id i ts) = removeAll i (map todo_id ts)"
  by (induction ts) (auto simp add: without_id_def)

lemma with_id_without_id: "with_id i (without_id i ts) = []"
  by (induction ts) (simp_all add: with_id_def without_id_def)

lemma without_id_remove1:
  "distinct (map todo_id ts) \<Longrightarrow> t \<in> set ts \<Longrightarrow> without_id (todo_id t) ts = remove1 t ts"
proof (induction ts)
  case Nil
  then show ?case by simp
next
  case (Cons a ts)
  show ?case
  proof (cases "a = t")
    case True
    with Cons.prems have "todo_id t \<notin> set (map todo_id ts)" by simp
    then have "filter (\<lambda>r. todo_id r \<noteq> todo_id t) ts = ts"
      by (induction ts) auto
    with True show ?thesis by (simp add: without_id_def)
  next
    case False
    with Cons.prems have "t \<in> set ts" by simp
    with Cons.prems have "todo_id a \<noteq> todo_id t" by force
    with Cons \<open>t \<in> set ts\<close> False show ?thesis by (simp add: without_id_def)
  qed
qed


lemma delete_existing_record:
  assumes "online d" and "distinct (ids d)" and "t \<in> set (records d)"
    and "is_object_id (todo_id t)"
  shows "serve (delete_todo (engine rd)) \<lparr>params_id = todo_id t, body = b\<rparr> d out
           = (Inr \<lparr>statusCode = 200, sent = Some (SentTodo t)\<rparr>,
              d\<lparr>records := remove1 t (records d)\<rparr>, out)
         \<and> todo_id t \<notin> set (ids (d\<lparr>records := remove1 t (records d)\<rparr>))
         \<and> (\<exists>before after.
              listing rd d = Some before
              \<and> listing rd (d\<lparr>records := remove1 t (records d)\<rparr>) = Some after
              \<and> with_id (todo_id t) after = []
              \<and> after = without_id (todo_id t) before)
         \<and> serve (delete_todo (engine rd)) \<lparr>params_id = todo_id t, body = b\<rparr>
              (d\<lparr>records := remove1 t (records d)\<rparr>) out
            = (Inr \<lparr>statusCode = 500, sent = Some (SentError RecordNotFound)\<rparr>,
               d\<lparr>records := remove1 t (records d)\<rparr>, out)"
proof -
  let ?i = "todo_id t"
  let ?d' = "d\<lparr>records := remove1 t (records d)\<rparr>"
  have rm: "without_id ?i (records d) = remove1 t (records d)"
    using assms(2,3) by (simp add: ids_def without_id_remove1)
  have del: "serve (delete_todo (engine rd)) \<lparr>params_id = ?i, body = b\<rparr> d out
           = (Inr \<lparr>statusCode = 200, sent = Some (SentTodo t)\<rparr>, ?d', out)"
    using delete_existing [OF assms, of rd] rm by (simp add: serve_delete_todo)
  have "ids ?d' = removeAll ?i (ids d)"
    using rm [symmetric] by (simp add: ids_def ids_without_id)
  then have gone: "?i \<notin> set (ids ?d')" by simp
  have l0: "listing rd d = Some (order_by_date Desc (records d))"
    using assms(1) by (rule listing_online)
  have l1: "listing rd ?d' = Some (order_by_date Desc (records ?d'))"
    using assms(1) by (simp add: listing_online)
  have a: "order_by_date Desc (records ?d') = without_id ?i (order_by_date Desc (records d))"
    using rm [symmetric] by (simp add: without_id_order)
  then have w: "with_id ?i (order_by_date Desc (records ?d')) = []"
    by (simp add: with_id_without_id)
  have "online ?d'" using assms(1) by simp
  from delete_absent [OF gone this assms(4), of rd]
  have again: "serve (delete_todo (engine rd)) \<lparr>params_id = ?i, body = b\<rparr> ?d' out
                 = (Inr \<lparr>statusCode = 500, sent = Some (SentError RecordNotFound)\<rparr>, ?d', out)"
    by (simp add: serve_delete_todo)
  from del gone l0 l1 a w again show ?thesis by blast
qed


text \<open>
  Claim C5. Let \<open>t\<close> be a record of a store reached from the empty store by any
  sequence of requests, with the database reachable. \<^verbatim>\<open>DELETE /todo/:id\<close> answers 200
  with \<open>t\<close> as it was stored; the store loses \<open>t\<close> and nothing else, a List afterwards
  shows what it showed before without the record of that identifier, and a second Delete
  of the same identifier is answered with status 500 (the engine finds no record).
\<close>

theorem delete_removes_record:
  assumes "d = run rd (empty_db n c b') evs" and "online d" and "t \<in> set (records d)"
  shows "serve (delete_todo (engine rd)) \<lparr>params_id = todo_id t, body = b\<rparr> d out
           = (Inr \<lparr>statusCode = 200, sent = Some (SentTodo t)\<rparr>,
              d\<lparr>records := remove1 t (records d)\<rparr>, out)
         \<and> todo_id t \<notin> set (ids (d\<lparr>records := remove1 t (records d)\<rparr>))
         \<and> (\<exists>before after.
              listing rd d = Some before
              \<and> listing rd (d\<lparr>records := remove1 t (records d)\<rparr>) = Some after
              \<and> with_id (todo_id t) after = []
              \<and> after = without_id (todo_id t) before)
         \<and> serve (delete_todo (engine rd)) \<lparr>params_id = todo_id t, body = b\<rparr>
              (d\<lparr>records := remove1 t (records d)\<rparr>) out
            = (Inr \<lparr>statusCode = 500, sent = Some (SentError RecordNotFound)\<rparr>,
               d\<lparr>records := remove1 t (records d)\<rparr>, out)"
proof -
  from reachable_record [OF assms(1,3)]
  have i: "distinct (ids d)" and w: "is_object_id (todo_id t)"
    by simp_all
  show ?thesis
    by (rule delete_existing_record [OF assms(2) i assms(3) w])
qed

theorem delete_removes_record_witness:
  "one_todo = run epoch_only (empty_db 0 0 True) [Post (content_request [] ''buy milk'')]
   \<and> online one_todo \<and> milk \<in> set (records one_todo)
   \<and> serve (delete_todo (engine epoch_only)) \<lparr>params_id = todo_id milk, body = JNull\<rparr>
        one_todo []
      = (Inr \<lparr>statusCode = 200, sent = Some (SentTodo milk)\<rparr>,
         one_todo\<lparr>records := remove1 milk (records one_todo)\<rparr>, [])
   \<and> serve (delete_todo (engine epoch_only)) \<lparr>params_id = todo_id milk, body = JNull\<rparr>
        (one_todo\<lparr>records := remove1 milk (records one_todo)\<rparr>) []
      = (Inr \<lparr>statusCode = 500, sent = Some (SentError RecordNotFound)\<rparr>,
         one_todo\<lparr>records := remove1 milk (records one_todo)\<rparr>, [])
   \<and> listing epoch_only (one_todo\<lparr>records := remove1 milk (records one_todo)\<rparr>) = Some []"
proof -
  have h1: "one_todo = run epoch_only (empty_db 0 0 True) [Post (content_request [] ''buy milk'')]"
    by (rule one_todo_def)
  have h2: "online one_todo" by (simp add: one_todo_value)
  have h3: "milk \<in> set (records one_todo)" by (simp add: one_todo_value)
  have l: "listing epoch_only (one_todo\<lparr>records := remove1 milk (records one_todo)\<rparr>) = Some []"
    by (simp add: one_todo_value listing_online order_by_date.simps)
  from delete_removes_record [OF h1 h2 h3, of JNull "[]"] h1 h2 h3 l
  show ?thesis by blast
qed

section \<open>Identifiers\<close>

text \<open>
  Claim C6. In every state reached from the empty store by any sequence of requests to
  the four endpoints (and of clock and connection changes), the stored identifiers are
  distinct. No request changes the identifier of a stored record: a PUT, whatever its
  body, and a GET leave the list of identifiers as it is, a POST at most appends one
  identifier that was not in use, a DELETE at most removes the identifier it names.
\<close>

theorem ids_unique_and_fixed:
  "distinct (ids (run rd (empty_db n c b) evs))
   \<and> ids (step rd d (Put req)) = ids d
   \<and> ids (step rd d (Get req)) = ids d
   \<and> (ids (step rd d (Post req)) = ids d
        \<or> (\<exists>i. i \<notin> set (ids d) \<and> ids (step rd d (Post req)) = ids d @ [i]))
   \<and> (ids (step rd d (Delete req)) = ids d
        \<or> ids (step rd d (Delete req)) = removeAll (params_id req) (ids d))
   \<and> ids (step rd d (Tick k)) = ids d
   \<and> ids (step rd d (Link l)) = ids d"
proof -
  have "distinct (ids (empty_db n c b))"
    by (simp add: empty_db_def ids_def)
  then have "distinct (ids (run rd (empty_db n c b) evs))"
    by (rule run_distinct)
  then show ?thesis
    using ids_post [of rd d req] ids_put [of rd d req] ids_get [of rd d req]
      ids_del [of rd d req] ids_env [of rd d] by blast
qed

section \<open>The frontend client settles\<close>

lemmas promise_defs = fetch_def then_do_def catch_do_def response_json_def log_error_def

lemma createData_settles:
  "createData net textInput pg =
     (Resolved (case delivered (net \<lparr>url = ''/todo'', http_method = ''POST'',
                    headers = json_headers,
                    request_body = Some (JObj [(''content'', JStr textInput)])\<rparr>) of
                  None \<Rightarrow> Undefined | Some v \<Rightarrow> Value v),
      pg\<lparr>requests := requests pg @ [\<lparr>url = ''/todo'', http_method = ''POST'',
                    headers = json_headers,
                    request_body = Some (JObj [(''content'', JStr textInput)])\<rparr>],
         logged := logged pg @ thrown ''Failed to create todo''
                     (net \<lparr>url = ''/todo'', http_method = ''POST'',
                    headers = json_headers,
                    request_body = Some (JObj [(''content'', JStr textInput)])\<rparr>)\<rparr>)"
  by (simp add: createData_def promise_defs delivered_def thrown_def
      split: promise.splits option.splits)

lemma deleteData_settles:
  "deleteData net todo pg =
     (Resolved (case delivered (net \<lparr>url = todo_url todo, http_method = ''DELETE'',
                    headers = json_headers, request_body = None\<rparr>) of
                  None \<Rightarrow> Undefined | Some v \<Rightarrow> Value v),
      pg\<lparr>requests := requests pg @ [\<lparr>url = todo_url todo, http_method = ''DELETE'',
                    headers = json_headers, request_body = None\<rparr>],
         logged := logged pg @ thrown ''Failed to delete todo''
                     (net \<lparr>url = todo_url todo, http_method = ''DELETE'',
                    headers = json_headers, request_body = None\<rparr>)\<rparr>)"
  by (simp add: deleteData_def promise_defs delivered_def thrown_def
      split: promise.splits option.splits)

lemma updateData_settles:
  "form_input todo = Some v \<Longrightarrow>
   updateData net todo pg =
     (Resolved (case delivered (net \<lparr>url = todo_url todo, http_method = ''PUT'',
                    headers = json_headers,
                    request_body = Some (JObj [(''content'', JStr v)])\<rparr>) of
                  None \<Rightarrow> Undefined | Some v \<Rightarrow> Value v),
      pg\<lparr>requests := requests pg @ [\<lparr>url = todo_url todo, http_method = ''PUT'',
                    headers = json_headers,
                    request_body = Some (JObj [(''content'', JStr v)])\<rparr>],
         logged := logged pg @ thrown ''Failed to update todo''
                     (net \<lparr>url = todo_url todo, http_method = ''PUT'',
                    headers = json_headers,
                    request_body = Some (JObj [(''content'', JStr v)])\<rparr>)\<rparr>)"
  by (simp add: updateData_def promise_defs delivered_def thrown_def
      split: promise.splits option.splits)

lemma updateData_throws:
  "form_input todo = None \<Longrightarrow>
   updateData net todo pg = (Rejected (TypeError ''Cannot read properties of null''), pg)"
  by (simp add: updateData_def)

lemma delivered_Some:
  "delivered p = Some v \<longleftrightarrow> (\<exists>response. p = Resolved response \<and> ok response \<and> parsed response = Some v)"
  by (cases p) (auto simp add: delivered_def)

lemma delivered_None:
  "delivered p = None \<longleftrightarrow>
     (\<exists>err. p = Rejected err)
     \<or> (\<exists>response. p = Resolved response \<and> (\<not> ok response \<or> parsed response = None))"
  by (cases p) (auto simp add: delivered_def)

lemma readData_delivered:
  assumes "delivered (net \<lparr>url = ''/todos'', http_method = ''GET'', headers = [],
             request_body = None\<rparr>) = Some v"
  shows "readData net pg =
     (Resolved (Value v),
      pg\<lparr>requests := requests pg
          @ [\<lparr>url = ''/todos'', http_method = ''GET'', headers = [], request_body = None\<rparr>]\<rparr>)"
proof -
  from assms obtain response where
    "net \<lparr>url = ''/todos'', http_method = ''GET'', headers = [], request_body = None\<rparr>
       = Resolved response"
    and "ok response" and "parsed response = Some v"
    by (auto simp add: delivered_Some)
  then show ?thesis
    by (simp add: readData_def promise_defs)
qed

lemma readData_degrades:
  assumes "notices pg = Some shown"
    and "delivered (net \<lparr>url = ''/todos'', http_method = ''GET'', headers = [],
           request_body = None\<rparr>) = None"
  shows "\<exists>errs. readData net pg =
     (Resolved (Value (JArr [])),
      pg\<lparr>requests := requests pg
          @ [\<lparr>url = ''/todos'', http_method = ''GET'', headers = [], request_body = None\<rparr>],
         logged := logged pg @ errs, notices := Some ''block''\<rparr>)"
proof -
  let ?rq = "\<lparr>url = ''/todos'', http_method = ''GET'', headers = [], request_body = None\<rparr>"
  let ?pg = "pg\<lparr>requests := requests pg @ [?rq]\<rparr>"
  from assms(2) consider
      (network) err where "net ?rq = Rejected err"
    | (status) response where "net ?rq = Resolved response" and "\<not> ok response"
    | (unparsed) response where "net ?rq = Resolved response" and "ok response"
        and "parsed response = None"
    by (auto simp add: delivered_None)
  then show ?thesis
  proof cases
    case network
    with assms(1) have "readData net pg =
        (Resolved (Value (JArr [])), ?pg\<lparr>logged := logged pg @ [err], notices := Some ''block''\<rparr>)"
      by (simp add: readData_def promise_defs show_notices_def)
    then show ?thesis by blast
  next
    case status
    with assms(1) have "readData net pg =
        (Resolved (Value (JArr [])), ?pg\<lparr>logged := logged pg @ [], notices := Some ''block''\<rparr>)"
      by (simp add: readData_def promise_defs show_notices_def)
    then show ?thesis by blast
  next
    case unparsed
    with assms(1) have "readData net pg =
        (Resolved (Value (JArr [])),
         ?pg\<lparr>logged := logged pg @ [SyntaxError ''Unexpected token''], notices := Some ''block''\<rparr>)"
      by (simp add: readData_def promise_defs show_notices_def)
    then show ?thesis by blast
  qed
qed

lemma readData_no_notices:
  assumes "notices pg = None"
    and "net \<lparr>url = ''/todos'', http_method = ''GET'', headers = [], request_body = None\<rparr>
          = Rejected err"
  shows "fst (readData net pg) = Rejected (TypeError ''Cannot read properties of null'')"
  using assms by (simp add: readData_def promise_defs show_notices_def)


text \<open>
  Claim C7. On a page that has the element \<^verbatim>\<open>#notices\<close>, whatever the outcome of
  \<^verbatim>\<open>GET /todos\<close>: when the response is a success carrying an array, \<^verbatim>\<open>readData\<close>
  resolves with that array and leaves the page as it is; when the request fails (network
  error, status that is not a success, or a body that is not JSON) it sets the display of
  \<^verbatim>\<open>#notices\<close> to \<^verbatim>\<open>block\<close> and resolves with the empty array. It never rejects.
\<close>

theorem readData_always_resolves:
  assumes "notices pg = Some shown"
  shows "(delivered (net read_request) = Some (JArr rows) \<longrightarrow>
            readData net pg
              = (Resolved (Value (JArr rows)), pg\<lparr>requests := requests pg @ [read_request]\<rparr>))
         \<and> (failed (net read_request) \<or> delivered (net read_request) = None \<longrightarrow>
            fst (readData net pg) = Resolved (Value (JArr []))
            \<and> notices (snd (readData net pg)) = Some ''block'')
         \<and> (\<exists>x. fst (readData net pg) = Resolved (Value x))"
proof -
  have none: "delivered (net read_request) = None"
    if "failed (net read_request) \<or> delivered (net read_request) = None"
    using that by (auto simp add: failed_def delivered_def split: promise.splits)
  have degraded: "fst (readData net pg) = Resolved (Value (JArr []))
            \<and> notices (snd (readData net pg)) = Some ''block''"
    if "delivered (net read_request) = None"
    using readData_degrades [of pg shown net] assms that by auto
  have "\<exists>x. fst (readData net pg) = Resolved (Value x)"
  proof (cases "delivered (net read_request)")
    case None
    with degraded show ?thesis by blast
  next
    case (Some x)
    then show ?thesis by (simp add: readData_delivered)
  qed
  with none degraded show ?thesis
    by (auto simp add: readData_delivered)
qed


theorem readData_always_resolves_witness:
  "notices hidden_notices = Some ''none''
   \<and> failed (unreachable read_request)
   \<and> fst (readData unreachable hidden_notices) = Resolved (Value (JArr []))
   \<and> notices (snd (readData unreachable hidden_notices)) = Some ''block''
   \<and> delivered (answers 200 (Some (JArr [JStr ''buy milk''])) read_request)
       = Some (JArr [JStr ''buy milk''])
   \<and> readData (answers 200 (Some (JArr [JStr ''buy milk'']))) hidden_notices
       = (Resolved (Value (JArr [JStr ''buy milk''])),
          hidden_notices\<lparr>requests := requests hidden_notices @ [read_request]\<rparr>)"
proof -
  have h: "notices hidden_notices = Some ''none''"
    by (simp add: hidden_notices_def)
  have f: "failed (unreachable read_request)"
    by (simp add: failed_def unreachable_def)
  have g: "delivered (answers 200 (Some (JArr [JStr ''buy milk''])) read_request)
       = Some (JArr [JStr ''buy milk''])"
    by (simp add: delivered_def answers_def ok_def)
  from readData_always_resolves [OF h, of unreachable]
    readData_always_resolves [OF h, of "answers 200 (Some (JArr [JStr ''buy milk'']))"
      "[JStr ''buy milk'']"] h f g
  show ?thesis by blast
qed

text \<open>
  Claim C8. When the \<^verbatim>\<open>fetch\<close> of \<^verbatim>\<open>createData\<close>, \<^verbatim>\<open>updateData\<close> or
  \<^verbatim>\<open>deleteData\<close> fails (network error or status that is not a success), the function
  resolves with \<^verbatim>\<open>undefined\<close>; the page is as before except for the request sent and
  one line on the console. No write ever touches \<^verbatim>\<open>#notices\<close>.
\<close>

theorem failed_writes_only_log:
  "(failed (net (create_request textInput)) \<longrightarrow>
      (\<exists>err. createData net textInput pg
         = (Resolved Undefined,
            pg\<lparr>requests := requests pg @ [create_request textInput],
               logged := logged pg @ [err]\<rparr>)))
   \<and> (form_input todo = Some v \<and> failed (net (update_request todo v)) \<longrightarrow>
      (\<exists>err. updateData net todo pg
         = (Resolved Undefined,
            pg\<lparr>requests := requests pg @ [update_request todo v],
               logged := logged pg @ [err]\<rparr>)))
   \<and> (failed (net (delete_request todo)) \<longrightarrow>
      (\<exists>err. deleteData net todo pg
         = (Resolved Undefined,
            pg\<lparr>requests := requests pg @ [delete_request todo],
               logged := logged pg @ [err]\<rparr>)))
   \<and> notices (snd (createData net textInput pg)) = notices pg
   \<and> notices (snd (updateData net todo pg)) = notices pg
   \<and> notices (snd (deleteData net todo pg)) = notices pg"
proof -
  have f: "delivered p = None \<and> (\<exists>err. thrown msg p = [err])" if "failed p" for p msg
    using that by (cases p) (auto simp add: failed_def delivered_def thrown_def)
  have c: "\<exists>err. createData net textInput pg
         = (Resolved Undefined,
            pg\<lparr>requests := requests pg @ [create_request textInput],
               logged := logged pg @ [err]\<rparr>)"
    if "failed (net (create_request textInput))"
  proof -
    from f [OF that, of "''Failed to create todo''"] obtain err where
      "delivered (net (create_request textInput)) = None"
      and "thrown ''Failed to create todo'' (net (create_request textInput)) = [err]"
      by blast
    then have "createData net textInput pg
         = (Resolved Undefined,
            pg\<lparr>requests := requests pg @ [create_request textInput],
               logged := logged pg @ [err]\<rparr>)"
      by (simp add: createData_settles)
    then show ?thesis by blast
  qed
  have u: "\<exists>err. updateData net todo pg
         = (Resolved Undefined,
            pg\<lparr>requests := requests pg @ [update_request todo v],
               logged := logged pg @ [err]\<rparr>)"
    if "form_input todo = Some v" and "failed (net (update_request todo v))"
  proof -
    from f [OF that(2), of "''Failed to update todo''"] obtain err where
      "delivered (net (update_request todo v)) = None"
      and "thrown ''Failed to update todo'' (net (update_request todo v)) = [err]"
      by blast
    with that(1) have "updateData net todo pg
         = (Resolved Undefined,
            pg\<lparr>requests := requests pg @ [update_request todo v],
               logged := logged pg @ [err]\<rparr>)"
      by (simp add: updateData_settles)
    then show ?thesis by blast
  qed
  have e: "\<exists>err. deleteData net todo pg
         = (Resolved Undefined,
            pg\<lparr>requests := requests pg @ [delete_request todo],
               logged := logged pg @ [err]\<rparr>)"
    if "failed (net (delete_request todo))"
  proof -
    from f [OF that, of "''Failed to delete todo''"] obtain err where
      "delivered (net (delete_request todo)) = None"
      and "thrown ''Failed to delete todo'' (net (delete_request todo)) = [err]"
      by blast
    then have "deleteData net todo pg
         = (Resolved Undefined,
            pg\<lparr>requests := requests pg @ [delete_request todo],
               logged := logged pg @ [err]\<rparr>)"
      by (simp add: deleteData_settles)
    then show ?thesis by blast
  qed
  have n1: "notices (snd (createData net textInput pg)) = notices pg"
    by (simp add: createData_settles)
  have n2: "notices (snd (updateData net todo pg)) = notices pg"
    by (cases "form_input todo") (simp_all add: updateData_settles updateData_throws)
  have n3: "notices (snd (deleteData net todo pg)) = notices pg"
    by (simp add: deleteData_settles)
  from c u e n1 n2 n3 show ?thesis by blast
qed


theorem failed_writes_only_log_witness:
  "failed (answers 500 (Some JNull) (create_request ''buy milk''))
   \<and> (\<exists>err. createData (answers 500 (Some JNull)) ''buy milk'' hidden_notices
         = (Resolved Undefined,
            hidden_notices\<lparr>requests := requests hidden_notices @ [create_request ''buy milk''],
               logged := logged hidden_notices @ [err]\<rparr>))
   \<and> form_input item = Some ''buy oat milk''
   \<and> failed (answers 500 (Some JNull) (update_request item ''buy oat milk''))
   \<and> (\<exists>err. updateData (answers 500 (Some JNull)) item hidden_notices
         = (Resolved Undefined,
            hidden_notices\<lparr>requests := requests hidden_notices
                               @ [update_request item ''buy oat milk''],
               logged := logged hidden_notices @ [err]\<rparr>))
   \<and> failed (answers 500 (Some JNull) (delete_request item))
   \<and> (\<exists>err. deleteData (answers 500 (Some JNull)) item hidden_notices
         = (Resolved Undefined,
            hidden_notices\<lparr>requests := requests hidden_notices @ [delete_request item],
               logged := logged hidden_notices @ [err]\<rparr>))"
proof -
  have f: "failed (answers 500 (Some JNull) rq)" for rq
    by (simp add: failed_def answers_def ok_def)
  have i: "form_input item = Some ''buy oat milk''"
    by (simp add: item_def)
  from failed_writes_only_log [of "answers 500 (Some JNull)" "''buy milk''" hidden_notices item
      "''buy oat milk''"] f i
  show ?thesis by blast
qed

lemma put_content_keeps_dates:
  "map date (records (step rd d (Put (content_request i v)))) = map date (records d)
   \<and> ids (step rd d (Put (content_request i v))) = ids d"
proof -
  have "map date (records (snd (engine_update rd i (JObj [(''content'', JStr v)]) d)))
          = map date (records d)"
    by (simp add: engine_update_def update_input_content merge_fields_def split: option.splits)
  then show ?thesis
    by (simp add: after_put engine_def content_request_def ids_update)
qed

lemma post_content_is_assigned:
  "records (step rd d (Post (content_request i textInput))) = records d
   \<or> records (step rd d (Post (content_request i textInput)))
       = records d @ [\<lparr>todo_id = auto_oid (next_oid d), content = textInput, date = clock d\<rparr>]"
proof -
  have "create_input rd (JObj [(''content'', JStr textInput)]) = Some (None, textInput, None)"
    by (simp add: create_input_def known_fields_def optional_def)
  from create_assigned [OF this, of d] show ?thesis
    by (simp add: after_post engine_def content_request_def)
qed

text \<open>
  Claim C9. \<^verbatim>\<open>createData\<close> sends one request and \<^verbatim>\<open>updateData\<close> at most one (none
  when the element has no input); the body of each is an object whose only key is
  \<^verbatim>\<open>content\<close>. Handled by the router, such an update leaves every stored date and
  identifier as it was, and such a create stores nothing or one record whose identifier
  and date the engine assigned.
\<close>

theorem client_sends_content_only:
  "requests (snd (createData net textInput pg)) = requests pg @ [create_request textInput]
   \<and> body_keys (create_request textInput) = [''content'']
   \<and> request_body (create_request textInput) = Some (body (content_request i textInput))
   \<and> requests (snd (updateData net todo pg))
       = requests pg @ (case form_input todo of None \<Rightarrow> [] | Some v \<Rightarrow> [update_request todo v])
   \<and> body_keys (update_request todo v) = [''content'']
   \<and> request_body (update_request todo v) = Some (body (content_request i v))
   \<and> map date (records (step rd d (Put (content_request i v)))) = map date (records d)
   \<and> ids (step rd d (Put (content_request i v))) = ids d
   \<and> (records (step rd d (Post (content_request i textInput))) = records d
        \<or> records (step rd d (Post (content_request i textInput)))
            = records d
              @ [\<lparr>todo_id = auto_oid (next_oid d), content = textInput, date = clock d\<rparr>])"
proof -
  have c: "requests (snd (createData net textInput pg)) = requests pg @ [create_request textInput]"
    by (simp add: createData_settles)
  have u: "requests (snd (updateData net todo pg))
       = requests pg @ (case form_input todo of None \<Rightarrow> [] | Some v \<Rightarrow> [update_request todo v])"
    by (cases "form_input todo") (simp_all add: updateData_settles updateData_throws)
  have k: "body_keys (create_request textInput) = [''content'']"
    "body_keys (update_request todo v) = [''content'']"
    by (simp_all add: body_keys_def)
  have b: "request_body (create_request textInput) = Some (body (content_request i textInput))"
    "request_body (update_request todo v) = Some (body (content_request i v))"
    by (simp_all add: content_request_def)
  from c u k b put_content_keeps_dates [of rd d i v] post_content_is_assigned [of rd d i textInput]
  show ?thesis by blast
qed


text \<open>
  Claim C10, as amended. \<^verbatim>\<open>createData\<close> and \<^verbatim>\<open>deleteData\<close> always resolve;
  \<^verbatim>\<open>updateData\<close> resolves when the element has a nested form input, and \<^verbatim>\<open>readData\<close>
  when the page has the element \<^verbatim>\<open>#notices\<close>. They resolve with the parsed result on
  success, with \<^verbatim>\<open>undefined\<close> for a failed write and with the empty array for a failed
  read.
\<close>

theorem client_settles:
  "fst (createData net textInput pg)
     = Resolved (case delivered (net (create_request textInput)) of
                   None \<Rightarrow> Undefined | Some x \<Rightarrow> Value x)
   \<and> fst (deleteData net todo pg)
     = Resolved (case delivered (net (delete_request todo)) of
                   None \<Rightarrow> Undefined | Some x \<Rightarrow> Value x)
   \<and> (form_input todo = Some v \<longrightarrow>
        fst (updateData net todo pg)
          = Resolved (case delivered (net (update_request todo v)) of
                        None \<Rightarrow> Undefined | Some x \<Rightarrow> Value x))
   \<and> (notices pg = Some shown \<longrightarrow>
        fst (readData net pg)
          = Resolved (Value (case delivered (net read_request) of
                               None \<Rightarrow> JArr [] | Some x \<Rightarrow> x)))"
proof -
  have r: "fst (readData net pg)
          = Resolved (Value (case delivered (net read_request) of
                               None \<Rightarrow> JArr [] | Some x \<Rightarrow> x))"
    if "notices pg = Some shown"
  proof (cases "delivered (net read_request)")
    case None
    with readData_degrades [of pg shown net] that show ?thesis by auto
  next
    case (Some x)
    then show ?thesis by (simp add: readData_delivered)
  qed
  then show ?thesis
    by (simp add: createData_settles deleteData_settles updateData_settles)
qed


theorem client_settles_witness:
  "form_input item = Some ''buy oat milk''
   \<and> fst (updateData unreachable item hidden_notices) = Resolved Undefined
   \<and> notices hidden_notices = Some ''none''
   \<and> fst (readData unreachable hidden_notices) = Resolved (Value (JArr []))"
proof -
  have i: "form_input item = Some ''buy oat milk''"
    by (simp add: item_def)
  have h: "notices hidden_notices = Some ''none''"
    by (simp add: hidden_notices_def)
  have d: "delivered (unreachable rq) = None" for rq
    by (simp add: delivered_def unreachable_def)
  from client_settles [of unreachable "''buy milk''" hidden_notices item "''buy oat milk''"
      "''none''"] i h d
  show ?thesis by simp
qed

text \<open>
  Claim C10 as stated fails: on an element without a nested form input,
  \<^verbatim>\<open>todo.querySelector('form input').value\<close> throws before \<^verbatim>\<open>fetch\<close> is called,
  outside the promise chain, so the promise \<^verbatim>\<open>updateData\<close> returns is rejected, even
  with a server that would answer 200.
\<close>

theorem update_without_input_counterexample:
  "updateData (answers 200 (Some JNull)) bare_item hidden_notices
     = (Rejected (TypeError ''Cannot read properties of null''), hidden_notices)"
  by (simp add: updateData_def bare_item_def)

end
